theory Spec2Isabelle
  imports Complex_Main "HOL-Library.AList"
begin

section \<open>Python values: errors, indexing, string formatting\<close>

text \<open>
  The functions of \<^verbatim>\<open>resnet_act_utils.py\<close> are Python functions that build a
  TensorFlow graph. Every exception the source can raise by itself (a failed
  \<^verbatim>\<open>assert\<close>, a missing dictionary key, an index out of range, a division by
  zero, \<^verbatim>\<open>tf.add_n\<close> of an empty list) is a value of \<open>py_error\<close>; a function that
  can raise returns \<open>py_error + 'a\<close>.
\<close>

datatype py_error =
    AssertionError
  | KeyError string
  | IndexError
  | ZeroDivisionError
  | ValueError
  | TypeError

text \<open>Python's \<^verbatim>\<open>xs[i]\<close>: a negative index counts from the end.\<close>

definition py_index :: "'a list \<Rightarrow> int \<Rightarrow> py_error + 'a" where
  "py_index xs i =
     (if 0 \<le> i \<and> i < int (length xs) then Inr (xs ! nat i)
      else if i < 0 \<and> - int (length xs) \<le> i then Inr (xs ! nat (int (length xs) + i))
      else Inl IndexError)"

text \<open>Python's \<^verbatim>\<open>'%d' % n\<close>: the decimal digits of an integer.\<close>

definition digit_char :: "nat \<Rightarrow> char" where
  "digit_char d = ''0123456789'' ! d"

fun digits :: "nat \<Rightarrow> string" where
  "digits n = (if n < 10 then [digit_char n] else digits (n div 10) @ [digit_char (n mod 10)])"

declare digits.simps [simp del]

definition str_int :: "int \<Rightarrow> string" where
  "str_int i = (if i < 0 then CHR ''-'' # digits (nat (- i)) else digits (nat i))"

section \<open>The TensorFlow graph\<close>

text \<open>
  In TensorFlow 1 a call such as \<^verbatim>\<open>tf.reduce_mean(x, [1, 2], keep_dims=True)\<close>
  computes nothing: it adds a node to the graph and returns it. The values the
  source handles are therefore graph nodes, and \<open>tensor\<close> is the datatype of those
  nodes, one constructor per operation the source calls, with the arguments the
  source passes. \<open>Placeholder\<close> is a tensor built elsewhere (the network input, the
  output of a unit, a metric of the controller), with its name and run-time shape.
  An axis list \<open>None\<close> is a reduction over all axes. \<open>Scalar\<close>, \<open>Int_scalar\<close> and
  \<open>Int_vector\<close> are the constants TensorFlow makes of a Python float, int and list
  of ints. \<open>Take_first t k r\<close> is the slice \<^verbatim>\<open>t[:k, :, ..., :]\<close> with \<open>r\<close> slice
  specifications, \<open>Index t i\<close> is \<^verbatim>\<open>t[i]\<close> and \<open>Slice_range t a b\<close> is \<^verbatim>\<open>t[a:b]\<close>
  on a vector.
\<close>

datatype activation_fn = Sigmoid_fn

datatype normalizer_fn = Batch_norm_fn

datatype initializer = Constant_initializer real

datatype tensor =
    Placeholder string "nat list"
  | Scalar real
  | Int_scalar int
  | Int_vector "int list"
  | Reduce_mean tensor "nat list option" bool
  | Reduce_min tensor "nat list option" bool
  | Reduce_max tensor "nat list option" bool
  | Batch_norm string tensor
  | Conv2d string tensor nat nat "activation_fn option" "normalizer_fn option"
      "initializer option" "tensor option"
  | Squeeze tensor "nat list"
  | Sigmoid tensor
  | Add tensor tensor
  | Sub tensor tensor
  | Mul tensor tensor
  | Div tensor tensor
  | Sqrt tensor
  | Maximum tensor tensor
  | Moments_mean tensor "nat list" "tensor option"
  | Moments_var tensor "nat list" "tensor option"
  | To_float tensor
  | Shape tensor
  | Index tensor nat
  | Slice_range tensor nat nat
  | Take_first tensor tensor nat
  | Expand_dims tensor nat
  | Resize_nearest_neighbor tensor tensor bool
  | Stack "tensor list"
  | Zeros tensor
  | Concat "tensor list" nat
  | Add_n "tensor list"

subsection \<open>Run-time shapes\<close>

text \<open>
  \<open>shape_of\<close> is the shape a node has when the graph runs, by TensorFlow's shape
  rules (broadcasting of element-wise operations, reductions with and without
  \<open>keep_dims\<close>, concatenation along an axis); \<open>None\<close> is a shape error. \<open>ivals\<close> is
  the value of an integer tensor that is computed from shapes and Python ints
  (\<^verbatim>\<open>tf.shape(x)[1:3]\<close>, \<^verbatim>\<open>tf.stack([n, h, w, 2])\<close>). The convolution keeps the
  spatial size (stride 1, \<^verbatim>\<open>SAME\<close> padding, the defaults of the layer).
\<close>

fun broadcast_rev :: "nat list \<Rightarrow> nat list \<Rightarrow> nat list option" where
  "broadcast_rev [] ys = Some ys"
| "broadcast_rev (x # xs) [] = Some (x # xs)"
| "broadcast_rev (x # xs) (y # ys) =
     (if x = y \<or> y = 1 then map_option ((#) x) (broadcast_rev xs ys)
      else if x = 1 then map_option ((#) y) (broadcast_rev xs ys)
      else None)"

definition broadcast :: "nat list \<Rightarrow> nat list \<Rightarrow> nat list option" where
  "broadcast a b = map_option rev (broadcast_rev (rev a) (rev b))"

definition reduce_shape :: "nat list \<Rightarrow> nat list option \<Rightarrow> bool \<Rightarrow> nat list option" where
  "reduce_shape sh axes keep_dims =
     (let ax = (case axes of None \<Rightarrow> [0..<length sh] | Some a \<Rightarrow> a)
      in if \<forall>i \<in> set ax. i < length sh
         then Some (if keep_dims
                    then map (\<lambda>i. if i \<in> set ax then 1 else sh ! i) [0..<length sh]
                    else map (\<lambda>i. sh ! i) (filter (\<lambda>i. i \<notin> set ax) [0..<length sh]))
         else None)"

definition squeeze_shape :: "nat list \<Rightarrow> nat list \<Rightarrow> nat list option" where
  "squeeze_shape sh ax =
     (if \<forall>i \<in> set ax. i < length sh \<and> sh ! i = 1
      then Some (map (\<lambda>i. sh ! i) (filter (\<lambda>i. i \<notin> set ax) [0..<length sh]))
      else None)"

definition concat_shape :: "nat list list \<Rightarrow> nat \<Rightarrow> nat list option" where
  "concat_shape shs ax =
     (case shs of
        [] \<Rightarrow> None
      | sh # rest \<Rightarrow>
          if ax < length sh \<and> (\<forall>s \<in> set rest. length s = length sh \<and> s[ax := 0] = sh[ax := 0])
          then Some (sh[ax := sum_list (map (\<lambda>s. s ! ax) shs)])
          else None)"

definition add_n_shape :: "nat list list \<Rightarrow> nat list option" where
  "add_n_shape shs =
     (case shs of
        [] \<Rightarrow> None
      | sh # rest \<Rightarrow> if \<forall>s \<in> set rest. s = sh then Some sh else None)"

definition slice_len :: "int \<Rightarrow> nat \<Rightarrow> nat" where
  "slice_len k n = (if k < 0 then nat (int n + k) else min (nat k) n)"

fun all_some :: "'a option list \<Rightarrow> 'a list option" where
  "all_some [] = Some []"
| "all_some (None # xs) = None"
| "all_some (Some x # xs) = map_option ((#) x) (all_some xs)"

fun shape_of :: "tensor \<Rightarrow> nat list option"
  and ivals :: "tensor \<Rightarrow> int list option"
  and shapes_of :: "tensor list \<Rightarrow> nat list option list"
  and ivals_of :: "tensor list \<Rightarrow> int list option list" where
  "shape_of (Placeholder name sh) = Some sh"
| "shape_of (Scalar c) = Some []"
| "shape_of (Int_scalar k) = Some []"
| "shape_of (Int_vector ks) = Some [length ks]"
| "shape_of (Reduce_mean t axes keep_dims) =
     (case shape_of t of None \<Rightarrow> None | Some sh \<Rightarrow> reduce_shape sh axes keep_dims)"
| "shape_of (Reduce_min t axes keep_dims) =
     (case shape_of t of None \<Rightarrow> None | Some sh \<Rightarrow> reduce_shape sh axes keep_dims)"
| "shape_of (Reduce_max t axes keep_dims) =
     (case shape_of t of None \<Rightarrow> None | Some sh \<Rightarrow> reduce_shape sh axes keep_dims)"
| "shape_of (Batch_norm name t) = shape_of t"
| "shape_of (Conv2d name t num_outputs kernel_size a n b m) =
     (case shape_of t of
        Some [bs, h, w, c] \<Rightarrow> Some [bs, h, w, num_outputs]
      | _ \<Rightarrow> None)"
| "shape_of (Squeeze t ax) =
     (case shape_of t of None \<Rightarrow> None | Some sh \<Rightarrow> squeeze_shape sh ax)"
| "shape_of (Sigmoid t) = shape_of t"
| "shape_of (Add a b) =
     (case (shape_of a, shape_of b) of (Some x, Some y) \<Rightarrow> broadcast x y | _ \<Rightarrow> None)"
| "shape_of (Sub a b) =
     (case (shape_of a, shape_of b) of (Some x, Some y) \<Rightarrow> broadcast x y | _ \<Rightarrow> None)"
| "shape_of (Mul a b) =
     (case (shape_of a, shape_of b) of (Some x, Some y) \<Rightarrow> broadcast x y | _ \<Rightarrow> None)"
| "shape_of (Div a b) =
     (case (shape_of a, shape_of b) of (Some x, Some y) \<Rightarrow> broadcast x y | _ \<Rightarrow> None)"
| "shape_of (Sqrt t) = shape_of t"
| "shape_of (Maximum a b) =
     (case (shape_of a, shape_of b) of (Some x, Some y) \<Rightarrow> broadcast x y | _ \<Rightarrow> None)"
| "shape_of (Moments_mean t ax shift) =
     (case shape_of t of None \<Rightarrow> None | Some sh \<Rightarrow> reduce_shape sh (Some ax) False)"
| "shape_of (Moments_var t ax shift) =
     (case shape_of t of None \<Rightarrow> None | Some sh \<Rightarrow> reduce_shape sh (Some ax) False)"
| "shape_of (To_float t) = shape_of t"
| "shape_of (Shape t) = (case shape_of t of None \<Rightarrow> None | Some sh \<Rightarrow> Some [length sh])"
| "shape_of (Index t i) =
     (case shape_of t of Some [n] \<Rightarrow> if i < n then Some [] else None | _ \<Rightarrow> None)"
| "shape_of (Slice_range t a b) =
     (case shape_of t of Some [n] \<Rightarrow> Some [min b n - a] | _ \<Rightarrow> None)"
| "shape_of (Take_first t k r) =
     (case (shape_of t, ivals k) of
        (Some (n # rest), Some [kv]) \<Rightarrow>
           if r \<le> Suc (length rest) then Some (slice_len kv n # rest) else None
      | _ \<Rightarrow> None)"
| "shape_of (Expand_dims t ax) =
     (case shape_of t of
        None \<Rightarrow> None
      | Some sh \<Rightarrow> if ax \<le> length sh then Some (take ax sh @ 1 # drop ax sh) else None)"
| "shape_of (Resize_nearest_neighbor t sz align_corners) =
     (case (shape_of t, ivals sz) of
        (Some [bs, h, w, c], Some [nh, nw]) \<Rightarrow>
           if 0 < nh \<and> 0 < nw then Some [bs, nat nh, nat nw, c] else None
      | _ \<Rightarrow> None)"
| "shape_of (Stack ts) =
     (case all_some (shapes_of ts) of None \<Rightarrow> None
      | Some shs \<Rightarrow> (case add_n_shape shs of None \<Rightarrow> None | Some sh \<Rightarrow> Some (length ts # sh)))"
| "shape_of (Zeros dims) =
     (case ivals dims of
        None \<Rightarrow> None
      | Some ds \<Rightarrow> if \<forall>d \<in> set ds. 0 \<le> d then Some (map nat ds) else None)"
| "shape_of (Concat ts ax) =
     (case all_some (shapes_of ts) of None \<Rightarrow> None | Some shs \<Rightarrow> concat_shape shs ax)"
| "shape_of (Add_n ts) =
     (case all_some (shapes_of ts) of None \<Rightarrow> None | Some shs \<Rightarrow> add_n_shape shs)"
| "ivals (Int_scalar k) = Some [k]"
| "ivals (Int_vector ks) = Some ks"
| "ivals (Shape t) = map_option (map int) (shape_of t)"
| "ivals (Index t i) =
     (case ivals t of None \<Rightarrow> None
      | Some vs \<Rightarrow> if i < length vs then Some [vs ! i] else None)"
| "ivals (Slice_range t a b) =
     (case ivals t of None \<Rightarrow> None | Some vs \<Rightarrow> Some (take (b - a) (drop a vs)))"
| "ivals (Stack ts) = map_option concat (all_some (ivals_of ts))"
| "ivals (Placeholder name sh) = None"
| "ivals (Scalar c) = None"
| "ivals (Reduce_mean t axes keep_dims) = None"
| "ivals (Reduce_min t axes keep_dims) = None"
| "ivals (Reduce_max t axes keep_dims) = None"
| "ivals (Batch_norm name t) = None"
| "ivals (Conv2d name t num_outputs kernel_size a n b m) = None"
| "ivals (Squeeze t ax) = None"
| "ivals (Sigmoid t) = None"
| "ivals (Add a b) = None"
| "ivals (Sub a b) = None"
| "ivals (Mul a b) = None"
| "ivals (Div a b) = None"
| "ivals (Sqrt t) = None"
| "ivals (Maximum a b) = None"
| "ivals (Moments_mean t ax shift) = None"
| "ivals (Moments_var t ax shift) = None"
| "ivals (To_float t) = None"
| "ivals (Take_first t k r) = None"
| "ivals (Expand_dims t ax) = None"
| "ivals (Resize_nearest_neighbor t sz align_corners) = None"
| "ivals (Zeros dims) = None"
| "ivals (Concat ts ax) = None"
| "ivals (Add_n ts) = None"
| "shapes_of [] = []"
| "shapes_of (t # ts) = shape_of t # shapes_of ts"
| "ivals_of [] = []"
| "ivals_of (t # ts) = ivals t # ivals_of ts"

subsection \<open>Graph state\<close>

text \<open>
  The default graph is global state. The model keeps the part of it the source
  writes: the layers that create variables (by their full scope name, in creation
  order), the loss collection and the summaries.
\<close>

record graph =
  layers :: "string list"
  losses :: "tensor list"
  summaries :: "(string \<times> tensor) list"

text \<open>
  \<^verbatim>\<open>with tf.variable_scope(name)\<close> nests \<open>name\<close> under the current scope; the
  current scope is passed explicitly, \<open>''''\<close> being the root.
\<close>

definition variable_scope :: "string \<Rightarrow> string \<Rightarrow> string" where
  "variable_scope sc name = (if sc = [] then name else sc @ ''/'' @ name)"

text \<open>\<^verbatim>\<open>slim.batch_norm(x, scope=s)\<close>: a normalisation layer with its own variables.\<close>

definition slim_batch_norm :: "string \<Rightarrow> tensor \<Rightarrow> string \<Rightarrow> graph \<Rightarrow> tensor \<times> graph" where
  "slim_batch_norm sc x scope_name g =
     (let name = variable_scope sc scope_name
      in (Batch_norm name x, g\<lparr>layers := layers g @ [name]\<rparr>))"

text \<open>
  Modelled from the spec: \<^verbatim>\<open>flopsometer.conv2d\<close> is not among the sources. By the
  spec's interface a FLOP-counting layer returns its output tensor and the FLOP
  cost of computing it. The layer is the node \<open>Conv2d\<close> holding the arguments of
  the call; the cost of a node is the parameter \<open>conv_flops\<close>.
\<close>

definition flopsometer_conv2d ::
  "(tensor \<Rightarrow> int) \<Rightarrow> string \<Rightarrow> tensor \<Rightarrow> nat \<Rightarrow> nat \<Rightarrow> activation_fn option \<Rightarrow>
   normalizer_fn option \<Rightarrow> initializer option \<Rightarrow> tensor option \<Rightarrow> string \<Rightarrow> graph \<Rightarrow>
   (tensor \<times> int) \<times> graph" where
  "flopsometer_conv2d conv_flops sc inputs num_outputs kernel_size act_fn norm_fn
      biases_initializer output_mask scope_name g =
     (let name = variable_scope sc scope_name;
          y = Conv2d name inputs num_outputs kernel_size act_fn norm_fn
                biases_initializer output_mask
      in ((y, conv_flops y), g\<lparr>layers := layers g @ [name]\<rparr>))"

section \<open>Halting-probability estimators\<close>

definition SACT_KERNEL_SIZE :: nat where
  "SACT_KERNEL_SIZE = 3"

definition INIT_BIAS :: real where
  "INIT_BIAS = - 3"

definition get_halting_proba ::
  "(tensor \<Rightarrow> int) \<Rightarrow> string \<Rightarrow> tensor \<Rightarrow> graph \<Rightarrow> (tensor \<times> int) \<times> graph" where
  "get_halting_proba conv_flops sc outputs g =
     (let sc' = variable_scope sc ''halting_proba'';
          x = outputs;
          x = Reduce_mean x (Some [1, 2]) True;
          (x, g) = slim_batch_norm sc' x ''global_bn'' g;
          ((halting_proba, flops), g) =
             flopsometer_conv2d conv_flops sc' x 1 1 (Some Sigmoid_fn) None
               (Some (Constant_initializer INIT_BIAS)) None ''global_conv'' g;
          halting_proba = Squeeze halting_proba [1, 2]
      in ((halting_proba, flops), g))"

definition get_halting_proba_conv ::
  "(tensor \<Rightarrow> int) \<Rightarrow> string \<Rightarrow> tensor \<Rightarrow> tensor option \<Rightarrow> graph \<Rightarrow>
   (tensor \<times> int) \<times> graph" where
  "get_halting_proba_conv conv_flops sc outputs residual_mask g =
     (let sc' = variable_scope sc ''halting_proba'';
          flops = 0;
          x = outputs;
          (local_feature, g) = slim_batch_norm sc' x ''local_bn'' g;
          ((halting_logit, current_flops), g) =
             flopsometer_conv2d conv_flops sc' local_feature 1 SACT_KERNEL_SIZE None None
               (Some (Constant_initializer INIT_BIAS)) residual_mask ''local_conv'' g;
          flops = flops + current_flops;
          global_feature = Reduce_mean x (Some [1, 2]) True;
          (global_feature, g) = slim_batch_norm sc' global_feature ''global_bn'' g;
          ((halting_logit_global, current_flops), g) =
             flopsometer_conv2d conv_flops sc' global_feature 1 1 None None
               None None ''global_conv'' g;
          flops = flops + current_flops;
          halting_logit = Add halting_logit halting_logit_global;
          halting_proba = Sigmoid halting_logit
      in ((halting_proba, flops), g))"

section \<open>Units and blocks\<close>

text \<open>
  A block is a scope name, a unit function and one argument tuple per unit. The
  unit function is an opaque capability: called in a variable scope on an input
  tensor, an argument tuple and an optional residual mask, it adds its layers to
  the graph and returns its output and its FLOP count.
\<close>

record 'a block =
  scope :: string
  unit_fn :: "string \<Rightarrow> tensor \<Rightarrow> 'a \<Rightarrow> tensor option \<Rightarrow> graph \<Rightarrow> (tensor \<times> int) \<times> graph"
  args :: "'a list"

definition unit_act ::
  "(tensor \<Rightarrow> int) \<Rightarrow> string \<Rightarrow> 'a block \<Rightarrow> tensor \<Rightarrow> int \<Rightarrow> bool \<Rightarrow> bool \<Rightarrow> tensor option \<Rightarrow>
   graph \<Rightarrow> py_error + ((tensor \<times> tensor option \<times> int) \<times> graph)" where
  "unit_act conv_flops sc block inputs unit_idx skip_halting_proba sact residual_mask g =
     (let sc' = variable_scope sc (''unit_'' @ str_int (unit_idx + 1))
      in case py_index (args block) unit_idx of
           Inl e \<Rightarrow> Inl e
         | Inr a \<Rightarrow>
             (let ((outputs, flops), g) = unit_fn block sc' inputs a residual_mask g
              in if \<not> skip_halting_proba \<and> unit_idx < int (length (args block)) - 1
                 then (if sact
                       then (let ((halting_proba, current_flops), g) =
                                    get_halting_proba_conv conv_flops sc' outputs None g
                             in Inr ((outputs, Some halting_proba, flops + current_flops), g))
                       else (let ((halting_proba, current_flops), g) =
                                    get_halting_proba conv_flops sc' outputs g
                             in Inr ((outputs, Some halting_proba, flops + current_flops), g)))
                 else Inr ((outputs, None, flops), g)))"

section \<open>End-points and the block assembler\<close>

text \<open>
  The end-points dictionary maps a key to a tensor, to a FLOP count, to the list
  of block scopes or to the list of unit counts. FLOP counts come from the absent
  \<^verbatim>\<open>flopsometer\<close> module; the model keeps them as integers, \<^verbatim>\<open>+\<close> on them being
  integer addition and Python's \<^verbatim>\<open>0\<close> their zero.
\<close>

datatype ep_value =
    Ep_tensor tensor
  | Ep_flops int
  | Ep_scopes "string list"
  | Ep_units "nat list"

type_synonym end_points = "string \<rightharpoonup> ep_value"

text \<open>
  Reading an entry: a missing key is a \<open>KeyError\<close>; an entry of another kind than
  the one the source goes on to use is a \<open>TypeError\<close>. Where the source reads a
  FLOP count as a tensor, it is the constant of its value.
\<close>

definition ep_tensor :: "end_points \<Rightarrow> string \<Rightarrow> py_error + tensor" where
  "ep_tensor end_points k =
     (case end_points k of
        None \<Rightarrow> Inl (KeyError k)
      | Some (Ep_tensor t) \<Rightarrow> Inr t
      | Some (Ep_flops f) \<Rightarrow> Inr (Int_scalar f)
      | Some _ \<Rightarrow> Inl TypeError)"

definition ep_scopes :: "end_points \<Rightarrow> string \<Rightarrow> py_error + string list" where
  "ep_scopes end_points k =
     (case end_points k of
        None \<Rightarrow> Inl (KeyError k)
      | Some (Ep_scopes ss) \<Rightarrow> Inr ss
      | Some _ \<Rightarrow> Inl TypeError)"

definition ep_units :: "end_points \<Rightarrow> string \<Rightarrow> py_error + nat list" where
  "ep_units end_points k =
     (case end_points k of
        None \<Rightarrow> Inl (KeyError k)
      | Some (Ep_units ns) \<Rightarrow> Inr ns
      | Some _ \<Rightarrow> Inl TypeError)"









section \<open>Ponder-cost loss and moment metrics\<close>

text \<open>The loop of \<^verbatim>\<open>add_all_ponder_costs\<close>, with \<open>total_ponder_cost\<close> as accumulator.\<close>

fun ponder_costs_loop :: "end_points \<Rightarrow> string list \<Rightarrow> tensor \<Rightarrow> py_error + tensor" where
  "ponder_costs_loop end_points [] total_ponder_cost = Inr total_ponder_cost"
| "ponder_costs_loop end_points (scope_name # rest) total_ponder_cost =
     (case ep_tensor end_points (scope_name @ ''/ponder_cost'') of
        Inl e \<Rightarrow> Inl e
      | Inr ponder_cost \<Rightarrow>
          ponder_costs_loop end_points rest
            (Add total_ponder_cost (Reduce_mean ponder_cost None False)))"

text \<open>\<^verbatim>\<open>tf.losses.add_loss\<close> appends to the loss collection of the graph.\<close>

definition add_all_ponder_costs :: "end_points \<Rightarrow> tensor \<Rightarrow> graph \<Rightarrow> py_error + graph" where
  "add_all_ponder_costs end_points weights g =
     (case ep_scopes end_points ''block_scopes'' of
        Inl e \<Rightarrow> Inl e
      | Inr scopes \<Rightarrow>
          (case ponder_costs_loop end_points scopes (Scalar 0) of
             Inl e \<Rightarrow> Inl e
           | Inr total_ponder_cost \<Rightarrow>
               Inr (g\<lparr>losses := losses g @ [Mul total_ponder_cost weights]\<rparr>)))"

text \<open>
  TensorFlow's static shape of a tensor, \<^verbatim>\<open>x.get_shape()\<close>, is a parameter of the
  functions that read it: \<open>None\<close> is an unknown rank (\<^verbatim>\<open>as_list()\<close> raises
  \<open>ValueError\<close>), a dimension \<open>None\<close> is unknown before the graph runs.
\<close>

type_synonym static_shape = "tensor \<Rightarrow> nat option list option"

definition moments_metric_map ::
  "static_shape \<Rightarrow> tensor \<Rightarrow> string \<Rightarrow> string \<Rightarrow> bool \<Rightarrow> graph \<Rightarrow>
   py_error + ((string \<rightharpoonup> tensor) \<times> graph)" where
  "moments_metric_map get_shape x name delimiter do_shift g =
     (let g = g\<lparr>summaries := summaries g @ [(name, x)]\<rparr>;
          shift = (if do_shift then Some (Reduce_mean x None False) else None)
      in case get_shape x of
           None \<Rightarrow> Inl ValueError
         | Some dims \<Rightarrow>
             (let mean = Moments_mean x [0..<length dims] shift;
                  var = Moments_var x [0..<length dims] shift;
                  metric_map =
                    [name @ delimiter @ ''mean'' \<mapsto> mean,
                     name @ delimiter @ ''std'' \<mapsto> Sqrt (Maximum (Scalar 0) var)]
              in Inr (metric_map, g)))"

text \<open>
  The value of a scalar node, over the reals: arithmetic is interpreted, every
  other node (a reduction, a moment, a placeholder) has the value the valuation
  \<open>\<rho>\<close> gives it. A valuation may give a variance node a negative value, as a
  rounding error can.
\<close>

fun scalar_value :: "(tensor \<Rightarrow> real) \<Rightarrow> tensor \<Rightarrow> real" where
  "scalar_value \<rho> (Scalar c) = c"
| "scalar_value \<rho> (Int_scalar k) = real_of_int k"
| "scalar_value \<rho> (Add a b) = scalar_value \<rho> a + scalar_value \<rho> b"
| "scalar_value \<rho> (Sub a b) = scalar_value \<rho> a - scalar_value \<rho> b"
| "scalar_value \<rho> (Mul a b) = scalar_value \<rho> a * scalar_value \<rho> b"
| "scalar_value \<rho> (Div a b) = scalar_value \<rho> a / scalar_value \<rho> b"
| "scalar_value \<rho> (Sqrt t) = sqrt (scalar_value \<rho> t)"
| "scalar_value \<rho> (Maximum a b) = max (scalar_value \<rho> a) (scalar_value \<rho> b)"
| "scalar_value \<rho> t = \<rho> t"

section \<open>Heat maps\<close>

text \<open>The loop of \<^verbatim>\<open>sact_image_heatmap\<close> over the block scopes.\<close>

fun image_heatmaps ::
  "end_points \<Rightarrow> string \<Rightarrow> tensor \<Rightarrow> tensor \<Rightarrow> string list \<Rightarrow> py_error + tensor list" where
  "image_heatmaps end_points metric_name num_images resolution [] = Inr []"
| "image_heatmaps end_points metric_name num_images resolution (scope_name # rest) =
     (case ep_tensor end_points (scope_name @ ''/'' @ metric_name) of
        Inl e \<Rightarrow> Inl e
      | Inr h \<Rightarrow>
          (let h = To_float h;
               h = Take_first h num_images 3;
               h = Expand_dims h 3;
               h = Resize_nearest_neighbor h resolution False;
               dimensions = Stack [num_images, Index resolution 0, Index resolution 1, Int_scalar 2];
               h = Concat [h, Zeros dimensions] 3
           in case image_heatmaps end_points metric_name num_images resolution rest of
                Inl e \<Rightarrow> Inl e
              | Inr heatmaps \<Rightarrow> Inr (h # heatmaps)))"

definition sact_image_heatmap ::
  "end_points \<Rightarrow> string \<Rightarrow> int option \<Rightarrow> real \<Rightarrow> int \<Rightarrow> bool \<Rightarrow> py_error + tensor" where
  "sact_image_heatmap end_points metric_name num_images alpha border normalize_images =
     (if metric_name \<noteq> ''ponder_cost'' \<and> metric_name \<noteq> ''num_units'' then Inl AssertionError
      else case ep_tensor end_points ''inputs'' of
        Inl e \<Rightarrow> Inl e
      | Inr images \<Rightarrow>
          (let (images, num_images) =
                 (case num_images of
                    Some k \<Rightarrow> (Take_first images (Int_scalar k) 4, Int_scalar k)
                  | None \<Rightarrow> (images, Index (Shape images) 0));
               images =
                 (if normalize_images
                  then (let images = Sub images (Reduce_min images (Some [1, 2, 3]) True)
                        in Div images (Reduce_max images (Some [1, 2, 3]) True))
                  else images);
               resolution = Slice_range (Shape images) 1 3
           in case ep_units end_points ''block_num_units'' of
                Inl e \<Rightarrow> Inl e
              | Inr block_num_units \<Rightarrow>
                  (let max_value = sum_list block_num_units;
                       max_value = (if metric_name = ''ponder_cost''
                                    then max_value + length block_num_units else max_value)
                   in case ep_scopes end_points ''block_scopes'' of
                        Inl e \<Rightarrow> Inl e
                      | Inr scopes \<Rightarrow>
                          (case image_heatmaps end_points metric_name num_images resolution scopes of
                             Inl e \<Rightarrow> Inl e
                           | Inr heatmaps \<Rightarrow>
                               if heatmaps = [] then Inl ValueError
                               else if max_value = 0 then Inl ZeroDivisionError
                               else
                                 (let im_heatmap =
                                        Add (Mul images (Scalar (1 - alpha)))
                                            (Mul (Add_n heatmaps) (Scalar (alpha / real max_value)));
                                      dimensions =
                                        Stack [num_images, Index resolution 0,
                                               Int_scalar border, Int_scalar 3];
                                      ret = Concat [images, Zeros dimensions, im_heatmap] 2
                                  in Inr ret)))))"

text \<open>The loop of \<^verbatim>\<open>sact_map\<close> over the block scopes.\<close>

fun map_heatmaps :: "end_points \<Rightarrow> string \<Rightarrow> tensor \<Rightarrow> string list \<Rightarrow> py_error + tensor list" where
  "map_heatmaps end_points metric_name resolution [] = Inr []"
| "map_heatmaps end_points metric_name resolution (scope_name # rest) =
     (case ep_tensor end_points (scope_name @ ''/'' @ metric_name) of
        Inl e \<Rightarrow> Inl e
      | Inr h \<Rightarrow>
          (let h = To_float h;
               h = Expand_dims h 3;
               h = Resize_nearest_neighbor h resolution False
           in case map_heatmaps end_points metric_name resolution rest of
                Inl e \<Rightarrow> Inl e
              | Inr heatmaps \<Rightarrow> Inr (h # heatmaps)))"

definition is_fully_defined :: "nat option list option \<Rightarrow> bool" where
  "is_fully_defined sh = (case sh of None \<Rightarrow> False | Some dims \<Rightarrow> list_all (\<lambda>d. d \<noteq> None) dims)"

definition sact_map :: "static_shape \<Rightarrow> end_points \<Rightarrow> string \<Rightarrow> py_error + tensor" where
  "sact_map get_shape end_points metric_name =
     (if metric_name \<noteq> ''ponder_cost'' \<and> metric_name \<noteq> ''num_units'' then Inl AssertionError
      else case ep_tensor end_points ''inputs'' of
        Inl e \<Rightarrow> Inl e
      | Inr inputs \<Rightarrow>
          (let resolution =
                 (if is_fully_defined (get_shape inputs)
                  then Int_vector (take 2 (drop 1 (map (\<lambda>d. int (the d)) (the (get_shape inputs)))))
                  else Slice_range (Shape inputs) 1 3)
           in case ep_scopes end_points ''block_scopes'' of
                Inl e \<Rightarrow> Inl e
              | Inr scopes \<Rightarrow>
                  (case map_heatmaps end_points metric_name resolution scopes of
                     Inl e \<Rightarrow> Inl e
                   | Inr heatmaps \<Rightarrow>
                       if heatmaps = [] then Inl ValueError else Inr (Add_n heatmaps))))"

section \<open>Export to HDF5\<close>

text \<open>
  The HDF5 file is the state of \<^verbatim>\<open>export_to_h5\<close>: its attributes and its datasets.
  A dataset has the shape it was created with and the slices written to it, each
  as \<open>(start, stop, value)\<close> for \<^verbatim>\<open>dataset[start:stop, ...] = value\<close>. \<open>Run i t\<close> is
  the array that the \<open>i\<close>-th call of \<^verbatim>\<open>sess.run\<close> returns for the tensor \<open>t\<close>. The
  function returns the file also when it raises, with the error. The checkpoint,
  the export path and the session supervisor are not part of the model.
\<close>

datatype array = Run nat tensor

record dataset =
  ds_shape :: "int option list"
  ds_writes :: "(int \<times> int \<times> array) list"

record h5file =
  attrs :: "string \<rightharpoonup> string list"
  datasets :: "string \<rightharpoonup> dataset"

text \<open>
  \<open>keys_to_tensors\<close> is a dictionary; the model keeps it as an association list
  in insertion order, a key set twice keeping its place.
\<close>

fun export_block_keys ::
  "end_points \<Rightarrow> string list \<Rightarrow> (string \<times> tensor) list \<Rightarrow> py_error + (string \<times> tensor) list" where
  "export_block_keys end_points [] keys_to_tensors = Inr keys_to_tensors"
| "export_block_keys end_points (k # ks) keys_to_tensors =
     (case ep_tensor end_points k of
        Inl e \<Rightarrow> Inl e
      | Inr t \<Rightarrow> export_block_keys end_points ks (AList.update k t keys_to_tensors))"

fun export_keys ::
  "end_points \<Rightarrow> string list \<Rightarrow> (string \<times> tensor) list \<Rightarrow> py_error + (string \<times> tensor) list" where
  "export_keys end_points [] keys_to_tensors = Inr keys_to_tensors"
| "export_keys end_points (block_scope # rest) keys_to_tensors =
     (case export_block_keys end_points
             [block_scope @ ''/ponder_cost'', block_scope @ ''/num_units'',
              block_scope @ ''/halting_distribution'', block_scope @ ''/flops'']
             keys_to_tensors of
        Inl e \<Rightarrow> Inl e
      | Inr keys_to_tensors \<Rightarrow> export_keys end_points rest keys_to_tensors)"

fun create_datasets ::
  "static_shape \<Rightarrow> int \<Rightarrow> (string \<times> tensor) list \<Rightarrow> h5file \<Rightarrow> py_error option \<times> h5file" where
  "create_datasets get_shape num_samples [] output_file = (None, output_file)"
| "create_datasets get_shape num_samples ((key, t) # rest) output_file =
     (case get_shape t of
        None \<Rightarrow> (Some ValueError, output_file)
      | Some [] \<Rightarrow> (Some IndexError, output_file)
      | Some (d # ds) \<Rightarrow>
          create_datasets get_shape num_samples rest
            (output_file\<lparr>datasets := (datasets output_file)
               (key \<mapsto> \<lparr>ds_shape = Some num_samples # map (map_option int) ds,
                         ds_writes = []\<rparr>)\<rparr>))"

text \<open>The tensors to export: the dictionary \<open>keys_to_tensors\<close>, once it is complete.\<close>

definition export_tensors ::
  "static_shape \<Rightarrow> tensor \<Rightarrow> end_points \<Rightarrow> bool \<Rightarrow> string list \<Rightarrow>
   py_error + (string \<times> tensor) list" where
  "export_tensors get_shape images end_points sact scopes =
     (case export_keys end_points scopes [] of
        Inl e \<Rightarrow> Inl e
      | Inr keys_to_tensors \<Rightarrow>
          (let keys_to_tensors = AList.update ''images'' images keys_to_tensors
           in case ep_tensor end_points ''flops'' of
                Inl e \<Rightarrow> Inl e
              | Inr flops \<Rightarrow>
                  (let keys_to_tensors = AList.update ''flops'' flops keys_to_tensors
                   in if sact
                      then (case sact_map get_shape end_points ''ponder_cost'' of
                              Inl e \<Rightarrow> Inl e
                            | Inr ponder_cost_map \<Rightarrow>
                                (case sact_map get_shape end_points ''num_units'' of
                                   Inl e \<Rightarrow> Inl e
                                 | Inr num_units_map \<Rightarrow>
                                     Inr (AList.update ''num_units_map'' num_units_map
                                           (AList.update ''ponder_cost_map'' ponder_cost_map
                                              keys_to_tensors))))
                      else Inr keys_to_tensors)))"

text \<open>
  Everything \<^verbatim>\<open>export_to_h5\<close> does before its \<^verbatim>\<open>assert\<close>: the file is opened for
  writing, the block scopes become an attribute, the tensors to export are
  collected and a dataset is created for each.
\<close>

definition export_datasets ::
  "static_shape \<Rightarrow> tensor \<Rightarrow> end_points \<Rightarrow> int \<Rightarrow> bool \<Rightarrow>
   (py_error + (string \<times> tensor) list) \<times> h5file" where
  "export_datasets get_shape images end_points num_samples sact =
     (let output_file = \<lparr>attrs = Map.empty, datasets = Map.empty\<rparr>
      in case ep_scopes end_points ''block_scopes'' of
           Inl e \<Rightarrow> (Inl e, output_file)
         | Inr scopes \<Rightarrow>
             (let output_file = output_file\<lparr>attrs := [''block_scopes'' \<mapsto> scopes]\<rparr>
              in case export_tensors get_shape images end_points sact scopes of
                   Inl e \<Rightarrow> (Inl e, output_file)
                 | Inr keys_to_tensors \<Rightarrow>
                     (case create_datasets get_shape num_samples keys_to_tensors output_file of
                        (Some e, output_file) \<Rightarrow> (Inl e, output_file)
                      | (None, output_file) \<Rightarrow> (Inr keys_to_tensors, output_file))))"

text \<open>One batch: \<^verbatim>\<open>dataset[i * batch_size:(i + 1) * batch_size, ...] = end_points_out[key]\<close>.\<close>

fun write_batch ::
  "int \<Rightarrow> nat \<Rightarrow> (string \<times> tensor) list \<Rightarrow> h5file \<Rightarrow> h5file" where
  "write_batch batch_size i [] output_file = output_file"
| "write_batch batch_size i ((key, t) # rest) output_file =
     write_batch batch_size i rest
       (case datasets output_file key of
          None \<Rightarrow> output_file
        | Some ds \<Rightarrow>
            output_file\<lparr>datasets := (datasets output_file)
              (key \<mapsto> ds\<lparr>ds_writes := ds_writes ds @
                  [(int i * batch_size, (int i + 1) * batch_size, Run i t)]\<rparr>)\<rparr>)"

fun write_batches ::
  "int \<Rightarrow> nat list \<Rightarrow> (string \<times> tensor) list \<Rightarrow> h5file \<Rightarrow> h5file" where
  "write_batches batch_size [] keys_to_tensors output_file = output_file"
| "write_batches batch_size (i # rest) keys_to_tensors output_file =
     write_batches batch_size rest keys_to_tensors
       (write_batch batch_size i keys_to_tensors output_file)"

definition export_to_h5 ::
  "static_shape \<Rightarrow> tensor \<Rightarrow> end_points \<Rightarrow> int \<Rightarrow> int \<Rightarrow> bool \<Rightarrow> py_error option \<times> h5file" where
  "export_to_h5 get_shape images end_points num_samples batch_size sact =
     (case export_datasets get_shape images end_points num_samples sact of
        (Inl e, output_file) \<Rightarrow> (Some e, output_file)
      | (Inr keys_to_tensors, output_file) \<Rightarrow>
          if batch_size = 0 then (Some ZeroDivisionError, output_file)
          else if num_samples mod batch_size \<noteq> 0 then (Some AssertionError, output_file)
          else (let num_batches = num_samples div batch_size
                in (None, write_batches batch_size [0..<nat num_batches]
                            keys_to_tensors output_file)))"

section \<open>The estimators in the spec's words\<close>

text \<open>
  The spec's global variant: spatially average-pool the activation to 1x1,
  normalize, apply a 1x1 convolution with one output channel and a sigmoid
  activation, its bias initialized to the constant \<open>-3\<close>; the result comes with
  the FLOP cost of the estimation.
\<close>

definition spec_global_estimator :: "(tensor \<Rightarrow> int) \<Rightarrow> string \<Rightarrow> tensor \<Rightarrow> tensor \<times> int" where
  "spec_global_estimator conv_flops sc activation =
     (let pooled = Reduce_mean activation (Some [1, 2]) True;
          normalized = Batch_norm (variable_scope (variable_scope sc ''halting_proba'') ''global_bn'') pooled;
          conv = Conv2d (variable_scope (variable_scope sc ''halting_proba'') ''global_conv'')
                   normalized 1 1 (Some Sigmoid_fn) None (Some (Constant_initializer (- 3))) None
      in (Squeeze conv [1, 2], conv_flops conv))"

text \<open>
  The spec's convolutional variant: a local halting logit by a convolution of
  kernel size 3 over normalized local features, masked by the optional residual
  mask, with the bias \<open>-3\<close>; a global halting logit by the global-pooling path with
  no bias; the sigmoid of their sum.
\<close>

definition spec_local_logit :: "string \<Rightarrow> tensor \<Rightarrow> tensor option \<Rightarrow> tensor" where
  "spec_local_logit sc activation residual_mask =
     Conv2d (variable_scope (variable_scope sc ''halting_proba'') ''local_conv'')
       (Batch_norm (variable_scope (variable_scope sc ''halting_proba'') ''local_bn'') activation)
       1 3 None None (Some (Constant_initializer (- 3))) residual_mask"

definition spec_global_logit :: "string \<Rightarrow> tensor \<Rightarrow> tensor" where
  "spec_global_logit sc activation =
     Conv2d (variable_scope (variable_scope sc ''halting_proba'') ''global_conv'')
       (Batch_norm (variable_scope (variable_scope sc ''halting_proba'') ''global_bn'')
          (Reduce_mean activation (Some [1, 2]) True))
       1 1 None None None None"

definition spec_conv_estimator ::
  "(tensor \<Rightarrow> int) \<Rightarrow> string \<Rightarrow> tensor \<Rightarrow> tensor option \<Rightarrow> tensor \<times> int" where
  "spec_conv_estimator conv_flops sc activation residual_mask =
     (Sigmoid (Add (spec_local_logit sc activation residual_mask) (spec_global_logit sc activation)),
      conv_flops (spec_local_logit sc activation residual_mask)
        + conv_flops (spec_global_logit sc activation))"

section \<open>The block assembler in the spec's words\<close>










section \<open>The heat-map overlay in the spec's words\<close>

text \<open>
  The number of images shown, as a tensor: \<open>num_images\<close>, or the batch size of the
  inputs when \<open>num_images\<close> is \<open>None\<close>. The resolution of the images: their height
  and width.
\<close>

definition spec_image_count :: "tensor \<Rightarrow> int option \<Rightarrow> tensor" where
  "spec_image_count inputs num_images =
     (case num_images of Some k \<Rightarrow> Int_scalar k | None \<Rightarrow> Index (Shape inputs) 0)"

definition spec_resolution :: "tensor \<Rightarrow> tensor" where
  "spec_resolution images = Slice_range (Shape images) 1 3"

text \<open>
  The metric's map of a block resized to full resolution: the maps of the images
  shown, as floats, with a channel axis, upsampled by nearest neighbour to the
  resolution of the images.
\<close>

definition spec_upsampled_map :: "tensor \<Rightarrow> tensor \<Rightarrow> tensor \<Rightarrow> tensor" where
  "spec_upsampled_map metric_map image_count images =
     Resize_nearest_neighbor (Expand_dims (Take_first (To_float metric_map) image_count 3) 3)
       (spec_resolution images) False"

text \<open>The heat map of a block: the upsampled map as red channel over two channels of zeros.\<close>

definition spec_heatmap :: "tensor \<Rightarrow> tensor \<Rightarrow> tensor \<Rightarrow> tensor" where
  "spec_heatmap metric_map image_count images =
     Concat [spec_upsampled_map metric_map image_count images,
             Zeros (Stack [image_count, Index (spec_resolution images) 0,
                           Index (spec_resolution images) 1, Int_scalar 2])] 3"

text \<open>The border: zeros, as high as the images, \<open>border\<close> wide, in three channels.\<close>

definition spec_border :: "tensor \<Rightarrow> tensor \<Rightarrow> int \<Rightarrow> tensor" where
  "spec_border image_count images border =
     Zeros (Stack [image_count, Index (spec_resolution images) 0, Int_scalar border, Int_scalar 3])"

text \<open>
  The largest value the maps of all blocks can add up to: the number of units,
  and one more per block for the ponder cost.
\<close>

definition spec_max_value :: "string \<Rightarrow> nat list \<Rightarrow> nat" where
  "spec_max_value metric_name block_num_units =
     (if metric_name = ''ponder_cost''
      then sum_list block_num_units + length block_num_units
      else sum_list block_num_units)"

text \<open>
  The images with the heat map overlaid: the images weighted by \<open>1 - alpha\<close> plus
  the sum of the heat maps of the blocks weighted by \<open>alpha / max_value\<close>.
\<close>

definition spec_overlay :: "tensor \<Rightarrow> tensor list \<Rightarrow> tensor \<Rightarrow> real \<Rightarrow> nat \<Rightarrow> tensor" where
  "spec_overlay images metric_maps image_count alpha max_value =
     Add (Mul images (Scalar (1 - alpha)))
         (Mul (Add_n (map (\<lambda>metric_map. spec_heatmap metric_map image_count images) metric_maps))
              (Scalar (alpha / real max_value)))"

text \<open>
  Side by side along the width axis: the images, the border and the images with
  the heat map overlaid.
\<close>

definition spec_image_heatmap ::
  "tensor \<Rightarrow> tensor list \<Rightarrow> tensor \<Rightarrow> real \<Rightarrow> nat \<Rightarrow> int \<Rightarrow> tensor" where
  "spec_image_heatmap images metric_maps image_count alpha max_value border =
     Concat [images, spec_border image_count images border,
             spec_overlay images metric_maps image_count alpha max_value] 2"

section \<open>Notions used in the statements\<close>






text \<open>The ponder-cost tensor of a block scope in the end-points.\<close>

definition ponder_cost_of :: "end_points \<Rightarrow> string \<Rightarrow> tensor" where
  "ponder_cost_of end_points s =
     (case ep_tensor end_points (s @ ''/ponder_cost'') of Inr t \<Rightarrow> t | Inl e \<Rightarrow> Scalar 0)"

text \<open>No record has been written: every dataset of the file has no slice.\<close>

definition no_records :: "h5file \<Rightarrow> bool" where
  "no_records output_file = (\<forall>key ds. datasets output_file key = Some ds \<longrightarrow> ds_writes ds = [])"

text \<open>
  The slices of a complete export of the tensor \<open>t\<close>: batch \<open>i\<close> goes to the rows
  from \<open>i * batch_size\<close> up to \<open>(i + 1) * batch_size\<close>.
\<close>

definition batch_slices :: "int \<Rightarrow> nat list \<Rightarrow> tensor \<Rightarrow> (int \<times> int \<times> array) list" where
  "batch_slices batch_size batches t =
     map (\<lambda>i. (int i * batch_size, (int i + 1) * batch_size, Run i t)) batches"

text \<open>
  The images \<open>sact_image_heatmap\<close> shows: the first \<open>num_images\<close> inputs (all of
  them when \<open>num_images\<close> is \<open>None\<close>), normalized per image to start at \<open>0\<close> and
  divided by their maximum when \<open>normalize_images\<close> is set.
\<close>

definition shown_images :: "tensor \<Rightarrow> int option \<Rightarrow> bool \<Rightarrow> tensor" where
  "shown_images inputs num_images normalize_images =
     (let images = (case num_images of
                      Some k \<Rightarrow> Take_first inputs (Int_scalar k) 4
                    | None \<Rightarrow> inputs)
      in if normalize_images
         then Div (Sub images (Reduce_min images (Some [1, 2, 3]) True))
                  (Reduce_max (Sub images (Reduce_min images (Some [1, 2, 3]) True))
                     (Some [1, 2, 3]) True)
         else images)"

section \<open>Example inputs\<close>

text \<open>
  A unit that returns a placeholder named after its variable scope, with as many
  channels as its argument says and that many FLOPs, and registers one layer; a
  block of two such units; the empty graph.
\<close>

definition example_unit_fn ::
  "string \<Rightarrow> tensor \<Rightarrow> nat \<Rightarrow> tensor option \<Rightarrow> graph \<Rightarrow> (tensor \<times> int) \<times> graph" where
  "example_unit_fn sc inputs depth residual_mask g =
     ((Placeholder sc [2, 4, 4, depth], int depth), g\<lparr>layers := layers g @ [sc]\<rparr>)"

definition example_block :: "nat block" where
  "example_block = \<lparr>scope = ''block1'', unit_fn = example_unit_fn, args = [8, 16]\<rparr>"

definition empty_graph :: graph where
  "empty_graph = \<lparr>layers = [], losses = [], summaries = []\<rparr>"






definition example_act_end_points :: end_points where
  "example_act_end_points =
     [''block_scopes'' \<mapsto> Ep_scopes [''block1'', ''block2''],
      ''block1/ponder_cost'' \<mapsto> Ep_tensor (Placeholder ''ponder1'' [2]),
      ''block2/ponder_cost'' \<mapsto> Ep_tensor (Placeholder ''ponder2'' [2])]"

text \<open>End-points of a network of one block, and a static shape for every tensor.\<close>

definition example_export_end_points :: end_points where
  "example_export_end_points =
     [''block_scopes'' \<mapsto> Ep_scopes [''block1''],
      ''block1/ponder_cost'' \<mapsto> Ep_tensor (Placeholder ''ponder1'' [2]),
      ''block1/num_units'' \<mapsto> Ep_tensor (Placeholder ''units1'' [2]),
      ''block1/halting_distribution'' \<mapsto> Ep_tensor (Placeholder ''halting1'' [2, 3]),
      ''block1/flops'' \<mapsto> Ep_flops 9,
      ''flops'' \<mapsto> Ep_flops 9]"

definition example_get_shape :: static_shape where
  "example_get_shape t = Some [Some 2, Some 3]"

definition example_keys_to_tensors :: "(string \<times> tensor) list" where
  "example_keys_to_tensors =
     [(''block1/ponder_cost'', Placeholder ''ponder1'' [2]),
      (''block1/num_units'', Placeholder ''units1'' [2]),
      (''block1/halting_distribution'', Placeholder ''halting1'' [2, 3]),
      (''block1/flops'', Int_scalar 9),
      (''images'', Placeholder ''x'' [2, 4, 4, 3]),
      (''flops'', Int_scalar 9)]"

text \<open>
  End-points of a spatially adaptive network of two blocks on a batch of three
  8x8 images, with maps of both metrics at lower resolutions.
\<close>

definition example_sact_end_points :: end_points where
  "example_sact_end_points =
     [''inputs'' \<mapsto> Ep_tensor (Placeholder ''images'' [3, 8, 8, 3]),
      ''block_scopes'' \<mapsto> Ep_scopes [''block1'', ''block2''],
      ''block_num_units'' \<mapsto> Ep_units [2, 1],
      ''block1/ponder_cost'' \<mapsto> Ep_tensor (Placeholder ''ponder1'' [3, 4, 4]),
      ''block2/ponder_cost'' \<mapsto> Ep_tensor (Placeholder ''ponder2'' [3, 2, 2]),
      ''block1/num_units'' \<mapsto> Ep_tensor (Placeholder ''units1'' [3, 4, 4]),
      ''block2/num_units'' \<mapsto> Ep_tensor (Placeholder ''units2'' [3, 2, 2])]"

section \<open>Properties of the unit wrapper\<close>

lemma str_int_1: "str_int 1 = ''1''"
  by code_simp

lemma str_int_2: "str_int 2 = ''2''"
  by code_simp

lemma py_index_nat: "0 \<le> i \<Longrightarrow> i < int (length xs) \<Longrightarrow> py_index xs i = Inr (xs ! nat i)"
  by (simp add: py_index_def)

lemma last_index_int: "xs \<noteq> [] \<Longrightarrow> xs ! nat (int (length xs) - 1) = last xs"
  by (simp add: last_conv_nth nat_diff_distrib')

lemma unit_act_in_range:
  assumes "0 \<le> i" and "i < int (length (args block))"
  shows "unit_act conv_flops sc block inputs i skip sact rmask g =
           (case unit_fn block (variable_scope sc (''unit_'' @ str_int (i + 1)))
                   inputs (args block ! nat i) rmask g of
              ((outputs, flops), g') \<Rightarrow>
                if \<not> skip \<and> i < int (length (args block)) - 1
                then (case (if sact
                            then get_halting_proba_conv conv_flops
                                   (variable_scope sc (''unit_'' @ str_int (i + 1))) outputs None g'
                            else get_halting_proba conv_flops
                                   (variable_scope sc (''unit_'' @ str_int (i + 1))) outputs g') of
                        ((halting_proba, current_flops), g'') \<Rightarrow>
                          Inr ((outputs, Some halting_proba, flops + current_flops), g''))
                else Inr ((outputs, None, flops), g'))"
  using assms by (simp add: unit_act_def py_index_nat Let_def split: prod.splits)

text \<open>
  C1. On the last unit of a block (\<open>unit_idx = len(block.args) - 1\<close>, the block
  having at least one unit) \<open>unit_act\<close> returns exactly what the unit function
  returns, with \<open>None\<close> as halting probability, whatever \<open>skip_halting_proba\<close> and
  \<open>sact\<close> are: the output, the FLOP count and the graph are the unit's own, so no
  estimator has run. On every earlier unit, with \<open>skip_halting_proba = False\<close>, the
  estimator chosen by \<open>sact\<close> runs on the unit's output and its tensor is returned,
  its FLOPs added.
\<close>

theorem unit_act_last_unit:
  assumes "args block \<noteq> []"
  shows "unit_act conv_flops sc block inputs (int (length (args block)) - 1) skip sact rmask g =
           (case unit_fn block (variable_scope sc (''unit_'' @ str_int (int (length (args block)))))
                   inputs (last (args block)) rmask g of
              ((outputs, flops), g') \<Rightarrow> Inr ((outputs, None, flops), g'))
         \<and> (0 \<le> i \<and> i < int (length (args block)) - 1 \<longrightarrow>
              unit_act conv_flops sc block inputs i False sact rmask g =
                (case unit_fn block (variable_scope sc (''unit_'' @ str_int (i + 1)))
                        inputs (args block ! nat i) rmask g of
                   ((outputs, flops), g') \<Rightarrow>
                     (case (if sact
                            then get_halting_proba_conv conv_flops
                                   (variable_scope sc (''unit_'' @ str_int (i + 1))) outputs None g'
                            else get_halting_proba conv_flops
                                   (variable_scope sc (''unit_'' @ str_int (i + 1))) outputs g') of
                        ((halting_proba, current_flops), g'') \<Rightarrow>
                          Inr ((outputs, Some halting_proba, flops + current_flops), g''))))"
proof (intro conjI impI)
  have "0 < length (args block)"
    using assms by simp
  then have "0 \<le> int (length (args block)) - 1"
    and "int (length (args block)) - 1 < int (length (args block))"
    by simp_all
  then show "unit_act conv_flops sc block inputs (int (length (args block)) - 1) skip sact rmask g =
           (case unit_fn block (variable_scope sc (''unit_'' @ str_int (int (length (args block)))))
                   inputs (last (args block)) rmask g of
              ((outputs, flops), g') \<Rightarrow> Inr ((outputs, None, flops), g'))"
    using assms by (simp add: unit_act_in_range last_index_int)
next
  assume "0 \<le> i \<and> i < int (length (args block)) - 1"
  then show "unit_act conv_flops sc block inputs i False sact rmask g =
                (case unit_fn block (variable_scope sc (''unit_'' @ str_int (i + 1)))
                        inputs (args block ! nat i) rmask g of
                   ((outputs, flops), g') \<Rightarrow>
                     (case (if sact
                            then get_halting_proba_conv conv_flops
                                   (variable_scope sc (''unit_'' @ str_int (i + 1))) outputs None g'
                            else get_halting_proba conv_flops
                                   (variable_scope sc (''unit_'' @ str_int (i + 1))) outputs g') of
                        ((halting_proba, current_flops), g'') \<Rightarrow>
                          Inr ((outputs, Some halting_proba, flops + current_flops), g'')))"
    by (simp add: unit_act_in_range)
qed

theorem unit_act_last_unit_witness:
  "args example_block \<noteq> []
   \<and> unit_act (\<lambda>t. 1) '''' example_block (Placeholder ''x'' [2, 4, 4, 3]) 1 False True None empty_graph =
     Inr ((Placeholder ''unit_2'' [2, 4, 4, 16], None, 16),
          \<lparr>layers = [''unit_2''], losses = [], summaries = []\<rparr>)
   \<and> unit_act (\<lambda>t. 1) '''' example_block (Placeholder ''x'' [2, 4, 4, 3]) 0 False True None empty_graph =
     Inr ((Placeholder ''unit_1'' [2, 4, 4, 8],
       Some
        (Sigmoid
          (Add (Conv2d ''unit_1/halting_proba/local_conv''
                 (Batch_norm ''unit_1/halting_proba/local_bn''
                   (Placeholder ''unit_1'' [2, 4, 4, 8]))
                 1 3 None None (Some (Constant_initializer (- 3))) None)
            (Conv2d ''unit_1/halting_proba/global_conv''
              (Batch_norm ''unit_1/halting_proba/global_bn''
                (Reduce_mean (Placeholder ''unit_1'' [2, 4, 4, 8])
                  (Some [1, 2]) True))
              1 1 None None None None))),
       10),
      \<lparr>layers =
         [''unit_1'', ''unit_1/halting_proba/local_bn'',
          ''unit_1/halting_proba/local_conv'',
          ''unit_1/halting_proba/global_bn'',
          ''unit_1/halting_proba/global_conv''],
         losses = [], summaries = []\<rparr>)"
  using unit_act_last_unit [of example_block "\<lambda>t. 1" "''''" "Placeholder ''x'' [2, 4, 4, 3]" False True None empty_graph 0]
  by (simp add: example_block_def example_unit_fn_def empty_graph_def variable_scope_def
        str_int_1 str_int_2 get_halting_proba_conv_def slim_batch_norm_def flopsometer_conv2d_def
        SACT_KERNEL_SIZE_def INIT_BIAS_def Let_def)

section \<open>Properties of the estimators\<close>

lemma get_halting_proba_eval:
  "get_halting_proba conv_flops sc outputs g =
     ((Squeeze (Conv2d (variable_scope (variable_scope sc ''halting_proba'') ''global_conv'')
                 (Batch_norm (variable_scope (variable_scope sc ''halting_proba'') ''global_bn'')
                    (Reduce_mean outputs (Some [1, 2]) True))
                 1 1 (Some Sigmoid_fn) None (Some (Constant_initializer (- 3))) None) [1, 2],
       conv_flops (Conv2d (variable_scope (variable_scope sc ''halting_proba'') ''global_conv'')
                 (Batch_norm (variable_scope (variable_scope sc ''halting_proba'') ''global_bn'')
                    (Reduce_mean outputs (Some [1, 2]) True))
                 1 1 (Some Sigmoid_fn) None (Some (Constant_initializer (- 3))) None)),
      g\<lparr>layers := layers g @
           [variable_scope (variable_scope sc ''halting_proba'') ''global_bn'',
            variable_scope (variable_scope sc ''halting_proba'') ''global_conv'']\<rparr>)"
  by (simp add: get_halting_proba_def slim_batch_norm_def flopsometer_conv2d_def INIT_BIAS_def Let_def)

lemma get_halting_proba_conv_eval:
  "get_halting_proba_conv conv_flops sc outputs residual_mask g =
     ((Sigmoid
         (Add (Conv2d (variable_scope (variable_scope sc ''halting_proba'') ''local_conv'')
                 (Batch_norm (variable_scope (variable_scope sc ''halting_proba'') ''local_bn'') outputs)
                 1 3 None None (Some (Constant_initializer (- 3))) residual_mask)
              (Conv2d (variable_scope (variable_scope sc ''halting_proba'') ''global_conv'')
                 (Batch_norm (variable_scope (variable_scope sc ''halting_proba'') ''global_bn'')
                    (Reduce_mean outputs (Some [1, 2]) True))
                 1 1 None None None None)),
       conv_flops (Conv2d (variable_scope (variable_scope sc ''halting_proba'') ''local_conv'')
                 (Batch_norm (variable_scope (variable_scope sc ''halting_proba'') ''local_bn'') outputs)
                 1 3 None None (Some (Constant_initializer (- 3))) residual_mask)
        + conv_flops (Conv2d (variable_scope (variable_scope sc ''halting_proba'') ''global_conv'')
                 (Batch_norm (variable_scope (variable_scope sc ''halting_proba'') ''global_bn'')
                    (Reduce_mean outputs (Some [1, 2]) True))
                 1 1 None None None None)),
      g\<lparr>layers := layers g @
           [variable_scope (variable_scope sc ''halting_proba'') ''local_bn'',
            variable_scope (variable_scope sc ''halting_proba'') ''local_conv'',
            variable_scope (variable_scope sc ''halting_proba'') ''global_bn'',
            variable_scope (variable_scope sc ''halting_proba'') ''global_conv'']\<rparr>)"
  by (simp add: get_halting_proba_conv_def slim_batch_norm_def flopsometer_conv2d_def
        INIT_BIAS_def SACT_KERNEL_SIZE_def Let_def)

lemma reduce_shape_spatial_keep:
  "reduce_shape [n, h, w, c] (Some [Suc 0, 2]) True = Some [n, Suc 0, Suc 0, c]"
  by (simp add: reduce_shape_def upt_rec numeral_2_eq_2 numeral_3_eq_3)

lemma squeeze_shape_spatial: "squeeze_shape [n, Suc 0, Suc 0, c] [Suc 0, 2] = Some [n, c]"
  by (simp add: squeeze_shape_def upt_rec numeral_2_eq_2 numeral_3_eq_3)

lemma broadcast_spatial: "broadcast [n, h, w, c] [n, Suc 0, Suc 0, c] = Some [n, h, w, c]"
  by (simp add: broadcast_def)

text \<open>
  C2. For every activation tensor, \<open>get_halting_proba\<close> returns the spec's global
  estimator: the activation is average-pooled over the two spatial axes (keeping
  them, so a \<open>[n, h, w, c]\<close> tensor becomes \<open>[n, 1, 1, c]\<close>), batch-normalized
  and passed to a 1x1 convolution with one output channel, sigmoid activation and
  bias initializer \<open>-3\<close>; the probability (one value per batch element after the
  squeeze) is returned with the FLOP cost of that convolution, and the graph gains
  exactly the normalisation and the convolution layer.
\<close>

theorem get_halting_proba_global:
  "get_halting_proba conv_flops sc outputs g =
     (spec_global_estimator conv_flops sc outputs,
      g\<lparr>layers := layers g @
           [variable_scope (variable_scope sc ''halting_proba'') ''global_bn'',
            variable_scope (variable_scope sc ''halting_proba'') ''global_conv'']\<rparr>)
   \<and> (shape_of outputs = Some [n, h, w, c] \<longrightarrow>
        shape_of (Reduce_mean outputs (Some [1, 2]) True) = Some [n, 1, 1, c]
        \<and> shape_of (fst (fst (get_halting_proba conv_flops sc outputs g))) = Some [n, 1])"
  by (simp add: get_halting_proba_eval spec_global_estimator_def Let_def
        reduce_shape_spatial_keep squeeze_shape_spatial)

theorem get_halting_proba_global_witness:
  "shape_of (Placeholder ''y'' [2, 4, 4, 8]) = Some [2, 4, 4, 8]
   \<and> get_halting_proba (\<lambda>t. 9) ''unit_1'' (Placeholder ''y'' [2, 4, 4, 8]) empty_graph =
     ((Squeeze
          (Conv2d ''unit_1/halting_proba/global_conv''
            (Batch_norm ''unit_1/halting_proba/global_bn''
              (Reduce_mean (Placeholder ''y'' [2, 4, 4, 8]) (Some [1, 2]) True))
            1 1 (Some Sigmoid_fn) None (Some (Constant_initializer (- 3))) None)
          [1, 2], 9),
      \<lparr>layers = [''unit_1/halting_proba/global_bn'', ''unit_1/halting_proba/global_conv''],
       losses = [], summaries = []\<rparr>)
   \<and> shape_of (fst (fst (get_halting_proba (\<lambda>t. 9) ''unit_1'' (Placeholder ''y'' [2, 4, 4, 8])
                            empty_graph))) = Some [2, 1]"
  using get_halting_proba_global [of "\<lambda>t. 9" "''unit_1''" "Placeholder ''y'' [2, 4, 4, 8]" empty_graph 2 4 4 8]
  by (simp add: spec_global_estimator_def empty_graph_def variable_scope_def Let_def
        get_halting_proba_eval reduce_shape_spatial_keep squeeze_shape_spatial)

text \<open>
  C3. For every activation tensor and optional residual mask,
  \<open>get_halting_proba_conv\<close> returns the spec's convolutional estimator: the local
  logit is a kernel-3 convolution of the batch-normalized activation with bias
  initializer \<open>-3\<close> and the residual mask as output mask, the global logit a
  bias-free 1x1 convolution of the batch-normalized spatial mean, and the
  probability the sigmoid of their sum, in which the \<open>[n, 1, 1, 1]\<close> global logit
  is broadcast over the spatial axes of the \<open>[n, h, w, 1]\<close> local one; the FLOPs
  are those of the two convolutions. With \<open>sact = True\<close>, \<open>unit_act\<close> calls it on
  the unit's output on every unit but the last.
\<close>

theorem get_halting_proba_conv_local_global:
  "get_halting_proba_conv conv_flops sc outputs residual_mask g =
     (spec_conv_estimator conv_flops sc outputs residual_mask,
      g\<lparr>layers := layers g @
           [variable_scope (variable_scope sc ''halting_proba'') ''local_bn'',
            variable_scope (variable_scope sc ''halting_proba'') ''local_conv'',
            variable_scope (variable_scope sc ''halting_proba'') ''global_bn'',
            variable_scope (variable_scope sc ''halting_proba'') ''global_conv'']\<rparr>)
   \<and> (shape_of outputs = Some [n, h, w, c] \<longrightarrow>
        shape_of (spec_local_logit sc outputs residual_mask) = Some [n, h, w, 1]
        \<and> shape_of (spec_global_logit sc outputs) = Some [n, 1, 1, 1]
        \<and> shape_of (fst (spec_conv_estimator conv_flops sc outputs residual_mask)) = Some [n, h, w, 1])
   \<and> (0 \<le> i \<and> i < int (length (args block)) - 1 \<longrightarrow>
        unit_act conv_flops sc block inputs i False True rmask g =
          (case unit_fn block (variable_scope sc (''unit_'' @ str_int (i + 1)))
                  inputs (args block ! nat i) rmask g of
             ((unit_outputs, flops), g') \<Rightarrow>
               (case get_halting_proba_conv conv_flops
                       (variable_scope sc (''unit_'' @ str_int (i + 1))) unit_outputs None g' of
                  ((halting_proba, current_flops), g'') \<Rightarrow>
                    Inr ((unit_outputs, Some halting_proba, flops + current_flops), g''))))"
proof (intro conjI impI)
  show "get_halting_proba_conv conv_flops sc outputs residual_mask g =
     (spec_conv_estimator conv_flops sc outputs residual_mask,
      g\<lparr>layers := layers g @
           [variable_scope (variable_scope sc ''halting_proba'') ''local_bn'',
            variable_scope (variable_scope sc ''halting_proba'') ''local_conv'',
            variable_scope (variable_scope sc ''halting_proba'') ''global_bn'',
            variable_scope (variable_scope sc ''halting_proba'') ''global_conv'']\<rparr>)"
    by (simp add: get_halting_proba_conv_eval spec_conv_estimator_def spec_local_logit_def
          spec_global_logit_def)
next
  assume sh: "shape_of outputs = Some [n, h, w, c]"
  show l: "shape_of (spec_local_logit sc outputs residual_mask) = Some [n, h, w, 1]"
    using sh by (simp add: spec_local_logit_def)
  show gl: "shape_of (spec_global_logit sc outputs) = Some [n, 1, 1, 1]"
    using sh by (simp add: spec_global_logit_def reduce_shape_spatial_keep)
  show "shape_of (fst (spec_conv_estimator conv_flops sc outputs residual_mask)) = Some [n, h, w, 1]"
    using l gl broadcast_spatial [of n h w "Suc 0"] by (simp add: spec_conv_estimator_def)
next
  assume "0 \<le> i \<and> i < int (length (args block)) - 1"
  then show "unit_act conv_flops sc block inputs i False True rmask g =
          (case unit_fn block (variable_scope sc (''unit_'' @ str_int (i + 1)))
                  inputs (args block ! nat i) rmask g of
             ((unit_outputs, flops), g') \<Rightarrow>
               (case get_halting_proba_conv conv_flops
                       (variable_scope sc (''unit_'' @ str_int (i + 1))) unit_outputs None g' of
                  ((halting_proba, current_flops), g'') \<Rightarrow>
                    Inr ((unit_outputs, Some halting_proba, flops + current_flops), g'')))"
    by (simp add: unit_act_in_range)
qed

theorem get_halting_proba_conv_local_global_witness:
  "shape_of (Placeholder ''y'' [2, 4, 4, 8]) = Some [2, 4, 4, 8]
   \<and> (0 \<le> (0::int) \<and> (0::int) < int (length (args example_block)) - 1)
   \<and> get_halting_proba_conv (\<lambda>t. 1) ''unit_1'' (Placeholder ''y'' [2, 4, 4, 8])
         (Some (Placeholder ''m'' [2, 4, 4, 1])) empty_graph =
     ((Sigmoid
          (Add (Conv2d ''unit_1/halting_proba/local_conv''
                 (Batch_norm ''unit_1/halting_proba/local_bn'' (Placeholder ''y'' [2, 4, 4, 8]))
                 1 3 None None (Some (Constant_initializer (- 3)))
                 (Some (Placeholder ''m'' [2, 4, 4, 1])))
            (Conv2d ''unit_1/halting_proba/global_conv''
              (Batch_norm ''unit_1/halting_proba/global_bn''
                (Reduce_mean (Placeholder ''y'' [2, 4, 4, 8]) (Some [1, 2]) True))
              1 1 None None None None)), 2),
      \<lparr>layers = [''unit_1/halting_proba/local_bn'', ''unit_1/halting_proba/local_conv'',
                 ''unit_1/halting_proba/global_bn'', ''unit_1/halting_proba/global_conv''],
       losses = [], summaries = []\<rparr>)
   \<and> shape_of (fst (spec_conv_estimator (\<lambda>t. 1) ''unit_1'' (Placeholder ''y'' [2, 4, 4, 8])
                       (Some (Placeholder ''m'' [2, 4, 4, 1])))) = Some [2, 4, 4, 1]
   \<and> unit_act (\<lambda>t. 1) '''' example_block (Placeholder ''x'' [2, 4, 4, 3]) 0 False True None empty_graph =
     Inr ((Placeholder ''unit_1'' [2, 4, 4, 8],
       Some
        (Sigmoid
          (Add (Conv2d ''unit_1/halting_proba/local_conv''
                 (Batch_norm ''unit_1/halting_proba/local_bn''
                   (Placeholder ''unit_1'' [2, 4, 4, 8]))
                 1 3 None None (Some (Constant_initializer (- 3))) None)
            (Conv2d ''unit_1/halting_proba/global_conv''
              (Batch_norm ''unit_1/halting_proba/global_bn''
                (Reduce_mean (Placeholder ''unit_1'' [2, 4, 4, 8])
                  (Some [1, 2]) True))
              1 1 None None None None))),
       10),
      \<lparr>layers =
         [''unit_1'', ''unit_1/halting_proba/local_bn'',
          ''unit_1/halting_proba/local_conv'',
          ''unit_1/halting_proba/global_bn'',
          ''unit_1/halting_proba/global_conv''],
         losses = [], summaries = []\<rparr>)"
proof -
  note t1 = get_halting_proba_conv_local_global
    [where conv_flops = "\<lambda>t. 1" and sc = "''unit_1''" and outputs = "Placeholder ''y'' [2, 4, 4, 8]"
       and residual_mask = "Some (Placeholder ''m'' [2, 4, 4, 1])" and g = empty_graph
       and n = 2 and h = 4 and w = 4 and c = 8]
  note t2 = get_halting_proba_conv_local_global
    [where conv_flops = "\<lambda>t. 1" and sc = "[]" and g = empty_graph and i = 0
       and block = example_block and inputs = "Placeholder ''x'' [2, 4, 4, 3]" and rmask = None]
  have e: "args example_block = [8, 16]" by (simp add: example_block_def)
  show ?thesis
    using t1 t2
    by (simp add: e spec_conv_estimator_def spec_local_logit_def spec_global_logit_def
        empty_graph_def variable_scope_def Let_def str_int_1 example_block_def example_unit_fn_def
        get_halting_proba_conv_eval reduce_shape_spatial_keep
        broadcast_spatial [of 2 4 4 "Suc 0", simplified])
qed

section \<open>Properties of the block assembler\<close>



































section \<open>Properties of the ponder-cost loss and the moment metrics\<close>

lemma ponder_costs_loop_value:
  assumes "\<forall>s \<in> set scopes. \<exists>t. ep_tensor end_points (s @ ''/ponder_cost'') = Inr t"
  shows "\<exists>t. ponder_costs_loop end_points scopes total0 = Inr t
     \<and> (\<forall>\<rho>. scalar_value \<rho> t =
            scalar_value \<rho> total0
            + (\<Sum>s\<leftarrow>scopes. scalar_value \<rho> (Reduce_mean (ponder_cost_of end_points s) None False)))"
  using assms
proof (induction scopes arbitrary: total0)
  case Nil
  then show ?case by simp
next
  case (Cons s scopes)
  then obtain pc where pc: "ep_tensor end_points (s @ ''/ponder_cost'') = Inr pc"
    by auto
  have rest: "\<forall>s \<in> set scopes. \<exists>t. ep_tensor end_points (s @ ''/ponder_cost'') = Inr t"
    using Cons.prems by simp
  obtain t where t: "ponder_costs_loop end_points scopes (Add total0 (Reduce_mean pc None False)) = Inr t"
    and v: "\<forall>\<rho>. scalar_value \<rho> t =
            scalar_value \<rho> (Add total0 (Reduce_mean pc None False))
            + (\<Sum>s\<leftarrow>scopes. scalar_value \<rho> (Reduce_mean (ponder_cost_of end_points s) None False))"
    using Cons.IH [OF rest] by blast
  show ?case
    using pc t v by (simp add: ponder_cost_of_def)
qed

text \<open>
  C6. For every end-points mapping that holds the list of block scopes and a
  ponder-cost tensor for each of them, and every weight, \<open>add_all_ponder_costs\<close>
  adds exactly one value to the loss collection; over the reals its value is the
  weight times the sum, over the scopes of \<^verbatim>\<open>block_scopes\<close>, of the mean
  (\<^verbatim>\<open>tf.reduce_mean\<close> over all axes) of that scope's ponder cost.
\<close>

theorem add_all_ponder_costs_loss:
  assumes "ep_scopes end_points ''block_scopes'' = Inr scopes"
    and "\<forall>s \<in> set scopes. \<exists>t. ep_tensor end_points (s @ ''/ponder_cost'') = Inr t"
  shows "\<exists>loss. add_all_ponder_costs end_points weights g = Inr (g\<lparr>losses := losses g @ [loss]\<rparr>)
     \<and> (\<forall>\<rho>. scalar_value \<rho> loss =
            scalar_value \<rho> weights
            * (\<Sum>s\<leftarrow>scopes. scalar_value \<rho> (Reduce_mean (ponder_cost_of end_points s) None False)))"
proof -
  obtain t where t: "ponder_costs_loop end_points scopes (Scalar 0) = Inr t"
    and v: "\<forall>\<rho>. scalar_value \<rho> t =
            scalar_value \<rho> (Scalar 0)
            + (\<Sum>s\<leftarrow>scopes. scalar_value \<rho> (Reduce_mean (ponder_cost_of end_points s) None False))"
    using ponder_costs_loop_value [OF assms(2)] by blast
  have "add_all_ponder_costs end_points weights g = Inr (g\<lparr>losses := losses g @ [Mul t weights]\<rparr>)"
    using assms(1) t by (simp add: add_all_ponder_costs_def)
  moreover have "\<forall>\<rho>. scalar_value \<rho> (Mul t weights) =
            scalar_value \<rho> weights
            * (\<Sum>s\<leftarrow>scopes. scalar_value \<rho> (Reduce_mean (ponder_cost_of end_points s) None False))"
    using v by (simp add: mult.commute)
  ultimately show ?thesis by blast
qed

theorem add_all_ponder_costs_loss_witness:
  "ep_scopes example_act_end_points ''block_scopes'' = Inr [''block1'', ''block2'']
   \<and> ep_tensor example_act_end_points ''block1/ponder_cost'' = Inr (Placeholder ''ponder1'' [2])
   \<and> ep_tensor example_act_end_points ''block2/ponder_cost'' = Inr (Placeholder ''ponder2'' [2])
   \<and> add_all_ponder_costs example_act_end_points (Scalar 2) empty_graph =
       Inr \<lparr>layers = [],
            losses = [Mul (Add (Add (Scalar 0) (Reduce_mean (Placeholder ''ponder1'' [2]) None False))
                              (Reduce_mean (Placeholder ''ponder2'' [2]) None False))
                         (Scalar 2)],
            summaries = []\<rparr>
   \<and> scalar_value (\<lambda>t. 3)
         (Mul (Add (Add (Scalar 0) (Reduce_mean (Placeholder ''ponder1'' [2]) None False))
                   (Reduce_mean (Placeholder ''ponder2'' [2]) None False))
              (Scalar 2)) = 12"
proof -
  have s: "ep_scopes example_act_end_points ''block_scopes'' = Inr [''block1'', ''block2'']"
    by (simp add: ep_scopes_def example_act_end_points_def)
  have p1: "ep_tensor example_act_end_points ''block1/ponder_cost'' = Inr (Placeholder ''ponder1'' [2])"
    and p2: "ep_tensor example_act_end_points ''block2/ponder_cost'' = Inr (Placeholder ''ponder2'' [2])"
    by (simp_all add: ep_tensor_def example_act_end_points_def)
  have all: "\<forall>s \<in> set [''block1'', ''block2'']. \<exists>t. ep_tensor example_act_end_points (s @ ''/ponder_cost'') = Inr t"
    using p1 p2 by simp
  obtain loss where
    r: "add_all_ponder_costs example_act_end_points (Scalar 2) empty_graph =
          Inr (empty_graph\<lparr>losses := losses empty_graph @ [loss]\<rparr>)"
    and v: "\<forall>\<rho>. scalar_value \<rho> loss =
            scalar_value \<rho> (Scalar 2)
            * (\<Sum>s\<leftarrow>[''block1'', ''block2''].
                 scalar_value \<rho> (Reduce_mean (ponder_cost_of example_act_end_points s) None False))"
    using add_all_ponder_costs_loss [OF s all, of "Scalar 2" empty_graph] by blast
  have e: "add_all_ponder_costs example_act_end_points (Scalar 2) empty_graph =
       Inr \<lparr>layers = [],
            losses = [Mul (Add (Add (Scalar 0) (Reduce_mean (Placeholder ''ponder1'' [2]) None False))
                              (Reduce_mean (Placeholder ''ponder2'' [2]) None False))
                         (Scalar 2)],
            summaries = []\<rparr>"
    using s p1 p2 by (simp add: add_all_ponder_costs_def empty_graph_def)
  have l: "loss = Mul (Add (Add (Scalar 0) (Reduce_mean (Placeholder ''ponder1'' [2]) None False))
                              (Reduce_mean (Placeholder ''ponder2'' [2]) None False))
                         (Scalar 2)"
    using r e by (simp add: empty_graph_def)
  have "scalar_value (\<lambda>t. 3) loss = 12"
    using v [rule_format, of "\<lambda>t. 3"] by (simp add: ponder_cost_of_def p1 p2)
  then show ?thesis
    using s p1 p2 e l by simp
qed

text \<open>
  C10. For every tensor \<open>x\<close> of known rank and every name, the entry
  \<^verbatim>\<open>{name}{delimiter}std\<close> of \<open>moments_metric_map\<close> (with the default delimiter,
  \<^verbatim>\<open>{name}_std\<close>) is the square root of the maximum of \<open>0\<close> and the variance
  \<^verbatim>\<open>tf.nn.moments\<close> returns. Whatever value the variance node has, a negative one
  included, the square root is taken of a non-negative number and the standard
  deviation is non-negative.
\<close>

theorem moments_metric_map_std:
  assumes "get_shape x = Some dims"
  shows "\<exists>metric_map g'.
       moments_metric_map get_shape x name delimiter do_shift g = Inr (metric_map, g')
     \<and> metric_map (name @ delimiter @ ''std'') =
         Some (Sqrt (Maximum (Scalar 0)
                 (Moments_var x [0..<length dims]
                    (if do_shift then Some (Reduce_mean x None False) else None))))
     \<and> (\<forall>\<rho>. scalar_value \<rho> (Sqrt (Maximum (Scalar 0)
                 (Moments_var x [0..<length dims]
                    (if do_shift then Some (Reduce_mean x None False) else None)))) =
               sqrt (max 0 (\<rho> (Moments_var x [0..<length dims]
                    (if do_shift then Some (Reduce_mean x None False) else None))))
             \<and> 0 \<le> max 0 (\<rho> (Moments_var x [0..<length dims]
                    (if do_shift then Some (Reduce_mean x None False) else None)))
             \<and> 0 \<le> scalar_value \<rho> (Sqrt (Maximum (Scalar 0)
                 (Moments_var x [0..<length dims]
                    (if do_shift then Some (Reduce_mean x None False) else None)))))"
  using assms by (simp add: moments_metric_map_def Let_def)

theorem moments_metric_map_std_witness:
  "(\<lambda>t. Some [Some 3, None]) (Placeholder ''x'' [3, 5]) = Some [Some 3, None]
   \<and> map_sum id (\<lambda>r. fst r ''ponder_std'')
        (moments_metric_map (\<lambda>t. Some [Some 3, None]) (Placeholder ''x'' [3, 5]) ''ponder'' ''_''
           False empty_graph) =
       Inr (Some (Sqrt (Maximum (Scalar 0) (Moments_var (Placeholder ''x'' [3, 5]) [0, 1] None))))
   \<and> scalar_value (\<lambda>t. - 1)
        (Sqrt (Maximum (Scalar 0) (Moments_var (Placeholder ''x'' [3, 5]) [0, 1] None))) = 0"
  using moments_metric_map_std [of "\<lambda>t. Some [Some 3, None]" "Placeholder ''x'' [3, 5]"
      "[Some 3, None]" "''ponder''" "''_''" False empty_graph]
  by (auto simp: upt_rec)

text \<open>
  C8. For every metric name other than \<^verbatim>\<open>ponder_cost\<close> and \<^verbatim>\<open>num_units\<close>, both
  \<open>sact_image_heatmap\<close> and \<open>sact_map\<close> raise the assertion error, whatever the
  end-points are: no entry is read (an empty dictionary gives no \<open>KeyError\<close>) and
  no tensor is built.
\<close>

theorem heatmap_metric_name_assertion:
  assumes "metric_name \<noteq> ''ponder_cost''" and "metric_name \<noteq> ''num_units''"
  shows "sact_image_heatmap end_points metric_name num_images alpha border normalize_images =
           Inl AssertionError
       \<and> sact_map get_shape end_points metric_name = Inl AssertionError"
  using assms by (simp add: sact_image_heatmap_def sact_map_def)

theorem heatmap_metric_name_assertion_witness:
  "''num_timesteps'' \<noteq> ''ponder_cost'' \<and> ''num_timesteps'' \<noteq> ''num_units''
   \<and> sact_image_heatmap Map.empty ''num_timesteps'' (Some 3) (3 / 4) 5 True = Inl AssertionError
   \<and> sact_map (\<lambda>t. None) Map.empty ''num_timesteps'' = Inl AssertionError"
  using heatmap_metric_name_assertion [of "''num_timesteps''" Map.empty "Some 3" "3 / 4" 5 True "\<lambda>t. None"]
  by simp

section \<open>Properties of the export\<close>

lemma create_datasets_no_records:
  "no_records output_file \<Longrightarrow>
   no_records (snd (create_datasets get_shape num_samples keys_to_tensors output_file))"
proof (induction keys_to_tensors arbitrary: output_file)
  case Nil
  then show ?case by simp
next
  case (Cons kt rest)
  obtain key t where kt: "kt = (key, t)" by (cases kt)
  show ?case
  proof (cases "get_shape t")
    case None
    then show ?thesis using Cons.prems kt by simp
  next
    case (Some dims)
    show ?thesis
    proof (cases dims)
      case Nil
      then show ?thesis using Cons.prems kt Some by simp
    next
      case (Cons d ds)
      have "no_records (output_file\<lparr>datasets := (datasets output_file)
               (key \<mapsto> \<lparr>ds_shape = Some num_samples # map (map_option int) ds,
                         ds_writes = []\<rparr>)\<rparr>)"
        using Cons.prems by (auto simp: no_records_def)
      then show ?thesis
        using kt Some Cons Cons.IH by simp
    qed
  qed
qed

lemma export_datasets_no_records:
  "no_records (snd (export_datasets get_shape images end_points num_samples sact))"
proof (cases "ep_scopes end_points ''block_scopes''")
  case (Inl e)
  then show ?thesis by (simp add: export_datasets_def no_records_def)
next
  case (Inr scopes)
  note sc = Inr
  show ?thesis
  proof (cases "export_tensors get_shape images end_points sact scopes")
    case (Inl e)
    then show ?thesis using sc by (simp add: export_datasets_def no_records_def)
  next
    case (Inr kt)
    have "no_records \<lparr>attrs = [''block_scopes'' \<mapsto> scopes], datasets = Map.empty\<rparr>"
      by (simp add: no_records_def)
    then have "no_records (snd (create_datasets get_shape num_samples kt
                 \<lparr>attrs = [''block_scopes'' \<mapsto> scopes], datasets = Map.empty\<rparr>))"
      by (rule create_datasets_no_records)
    moreover obtain e f where c: "create_datasets get_shape num_samples kt
                 \<lparr>attrs = [''block_scopes'' \<mapsto> scopes], datasets = Map.empty\<rparr> = (e, f)"
      by (metis surj_pair)
    ultimately have "no_records f" by (metis snd_conv)
    then show ?thesis
      using sc Inr c by (cases e) (simp_all add: export_datasets_def)
  qed
qed

lemma write_batch_datasets:
  assumes "distinct (map fst keys_to_tensors)"
  shows "datasets (write_batch batch_size i keys_to_tensors output_file) key =
           (case map_of keys_to_tensors key of
              None \<Rightarrow> datasets output_file key
            | Some t \<Rightarrow>
                map_option
                  (\<lambda>ds. ds\<lparr>ds_writes := ds_writes ds @
                            [(int i * batch_size, (int i + 1) * batch_size, Run i t)]\<rparr>)
                  (datasets output_file key))"
  using assms
proof (induction keys_to_tensors arbitrary: output_file)
  case Nil
  then show ?case by simp
next
  case (Cons kt rest)
  obtain k t where kt: "kt = (k, t)" by (cases kt)
  have d: "distinct (map fst rest)" and nk: "map_of rest k = None"
    using Cons.prems kt by (auto simp: map_of_eq_None_iff)
  show ?case
    using Cons.IH [OF d] kt nk
    by (auto split: option.splits)
qed

lemma write_batches_datasets:
  assumes "distinct (map fst keys_to_tensors)"
  shows "datasets (write_batches batch_size batches keys_to_tensors output_file) key =
           (case map_of keys_to_tensors key of
              None \<Rightarrow> datasets output_file key
            | Some t \<Rightarrow>
                map_option
                  (\<lambda>ds. ds\<lparr>ds_writes := ds_writes ds @ batch_slices batch_size batches t\<rparr>)
                  (datasets output_file key))"
proof (induction batches arbitrary: output_file)
  case Nil
  show ?case
    by (cases "datasets output_file key") (auto simp: batch_slices_def split: option.splits)
next
  case (Cons i batches)
  show ?case
    by (cases "datasets output_file key")
       (auto simp: Cons.IH write_batch_datasets [OF assms] batch_slices_def split: option.splits)
qed

lemma create_datasets_created:
  assumes "create_datasets get_shape num_samples keys_to_tensors output_file = (None, output_file')"
  shows "dom (datasets output_file') = dom (datasets output_file) \<union> fst ` set keys_to_tensors"
    and "no_records output_file \<Longrightarrow> no_records output_file'"
proof -
  show "dom (datasets output_file') = dom (datasets output_file) \<union> fst ` set keys_to_tensors"
    using assms
  proof (induction keys_to_tensors arbitrary: output_file)
    case Nil
    then show ?case by simp
  next
    case (Cons kt rest)
    obtain key t where kt: "kt = (key, t)" by (cases kt)
    from Cons.prems kt obtain d ds where sh: "get_shape t = Some (d # ds)"
      by (auto split: option.splits list.splits)
    let ?f = "output_file\<lparr>datasets := (datasets output_file)
               (key \<mapsto> \<lparr>ds_shape = Some num_samples # map (map_option int) ds,
                         ds_writes = []\<rparr>)\<rparr>"
    have "create_datasets get_shape num_samples rest ?f = (None, output_file')"
      using Cons.prems kt sh by simp
    then have "dom (datasets output_file') = dom (datasets ?f) \<union> fst ` set rest"
      by (rule Cons.IH)
    then show ?case using kt by auto
  qed
  show "no_records output_file \<Longrightarrow> no_records output_file'"
    using create_datasets_no_records [of output_file get_shape num_samples keys_to_tensors] assms
    by simp
qed

lemma export_block_keys_distinct:
  "export_block_keys end_points ks kt = Inr kt' \<Longrightarrow> distinct (map fst kt) \<Longrightarrow> distinct (map fst kt')"
  by (induction ks arbitrary: kt) (auto split: sum.splits simp: distinct_update)

lemma export_keys_distinct:
  "export_keys end_points scopes kt = Inr kt' \<Longrightarrow> distinct (map fst kt) \<Longrightarrow> distinct (map fst kt')"
proof (induction scopes arbitrary: kt)
  case Nil
  then show ?case by simp
next
  case (Cons s scopes)
  from Cons.prems(1) obtain kt1 where
    b: "export_block_keys end_points
             [s @ ''/ponder_cost'', s @ ''/num_units'',
              s @ ''/halting_distribution'', s @ ''/flops''] kt = Inr kt1"
    and r: "export_keys end_points scopes kt1 = Inr kt'"
    by (auto split: sum.splits)
  show ?case
    using Cons.IH [OF r] export_block_keys_distinct [OF b Cons.prems(2)] by simp
qed

lemma export_tensors_distinct:
  assumes "export_tensors get_shape images end_points sact scopes = Inr kt"
  shows "distinct (map fst kt)"
proof -
  from assms obtain kt0 where k: "export_keys end_points scopes [] = Inr kt0"
    by (auto simp: export_tensors_def split: sum.splits)
  have "distinct (map fst kt0)"
    using export_keys_distinct [OF k] by simp
  then show ?thesis
    using assms k
    by (auto simp: export_tensors_def Let_def distinct_update split: sum.splits if_splits)
qed

lemma export_datasets_ready:
  assumes "export_datasets get_shape images end_points num_samples sact = (Inr kt, output_file)"
  shows "distinct (map fst kt)" and "dom (datasets output_file) = fst ` set kt"
    and "no_records output_file"
proof -
  from assms obtain scopes where sc: "ep_scopes end_points ''block_scopes'' = Inr scopes"
    by (auto simp: export_datasets_def Let_def split: sum.splits)
  from assms sc have t: "export_tensors get_shape images end_points sact scopes = Inr kt"
    by (auto simp: export_datasets_def Let_def split: sum.splits prod.splits option.splits)
  from assms sc t have c: "create_datasets get_shape num_samples kt
       \<lparr>attrs = [''block_scopes'' \<mapsto> scopes], datasets = Map.empty\<rparr> = (None, output_file)"
    by (auto simp: export_datasets_def Let_def split: sum.splits prod.splits option.splits)
  show "distinct (map fst kt)"
    using export_tensors_distinct [OF t] .
  show "dom (datasets output_file) = fst ` set kt"
    using create_datasets_created(1) [OF c] by simp
  show "no_records output_file"
    using export_datasets_no_records [of get_shape images end_points num_samples sact] assms
    by (metis snd_conv)
qed

text \<open>
  C9. If \<open>batch_size\<close> does not divide \<open>num_samples\<close> exactly, \<open>export_to_h5\<close>
  raises and no record has been written to any dataset (the file has been opened
  and the datasets created, empty, before the \<^verbatim>\<open>assert\<close>). If a positive
  \<open>batch_size\<close> divides \<open>num_samples\<close> and the datasets have been created, it
  returns normally, the file has exactly the datasets of \<open>keys_to_tensors\<close>, and
  every one of them has received exactly \<open>num_samples / batch_size\<close> slices, batch
  \<open>i\<close> going to the rows from \<open>i * batch_size\<close> up to \<open>(i + 1) * batch_size\<close>, that
  is \<open>batch_size\<close> records each.
\<close>

theorem export_to_h5_batches:
  "(\<not> batch_size dvd num_samples \<longrightarrow>
      fst (export_to_h5 get_shape images end_points num_samples batch_size sact) \<noteq> None
      \<and> no_records (snd (export_to_h5 get_shape images end_points num_samples batch_size sact)))
   \<and> (batch_size dvd num_samples \<and> 0 < batch_size
       \<and> export_datasets get_shape images end_points num_samples sact = (Inr keys_to_tensors, file0) \<longrightarrow>
      fst (export_to_h5 get_shape images end_points num_samples batch_size sact) = None
      \<and> dom (datasets (snd (export_to_h5 get_shape images end_points num_samples batch_size sact)))
          = fst ` set keys_to_tensors
      \<and> (\<forall>key t. map_of keys_to_tensors key = Some t \<longrightarrow>
            (\<exists>ds. datasets (snd (export_to_h5 get_shape images end_points num_samples batch_size sact))
                     key = Some ds
                 \<and> ds_writes ds =
                     batch_slices batch_size [0..<nat (num_samples div batch_size)] t
                 \<and> length (ds_writes ds) = nat (num_samples div batch_size)
                 \<and> (\<forall>w \<in> set (ds_writes ds). fst (snd w) - fst w = batch_size))))"
proof (intro conjI impI)
  assume nd: "\<not> batch_size dvd num_samples"
  obtain r f where e: "export_datasets get_shape images end_points num_samples sact = (r, f )"
    by (cases "export_datasets get_shape images end_points num_samples sact")
  have nr: "no_records f"
    using export_datasets_no_records [of get_shape images end_points num_samples sact] e
    by (metis snd_conv)
  have m: "batch_size \<noteq> 0 \<Longrightarrow> num_samples mod batch_size \<noteq> 0"
    using nd by (simp add: dvd_eq_mod_eq_0)
  show "fst (export_to_h5 get_shape images end_points num_samples batch_size sact) \<noteq> None"
    using e m by (cases r) (auto simp: export_to_h5_def)
  show "no_records (snd (export_to_h5 get_shape images end_points num_samples batch_size sact))"
    using e m nr by (cases r) (auto simp: export_to_h5_def)
next
  assume h: "batch_size dvd num_samples \<and> 0 < batch_size
       \<and> export_datasets get_shape images end_points num_samples sact = (Inr keys_to_tensors, file0)"
  let ?n = "nat (num_samples div batch_size)"
  have ex: "export_to_h5 get_shape images end_points num_samples batch_size sact =
          (None, write_batches batch_size [0..<?n] keys_to_tensors file0)"
    using h by (auto simp: export_to_h5_def Let_def)
  have d: "distinct (map fst keys_to_tensors)"
    and dm: "dom (datasets file0) = fst ` set keys_to_tensors"
    and nr: "no_records file0"
    using export_datasets_ready [of get_shape images end_points num_samples sact keys_to_tensors file0] h
    by simp_all
  note w = write_batches_datasets [OF d, of batch_size "[0..<?n]" file0]
  show "fst (export_to_h5 get_shape images end_points num_samples batch_size sact) = None"
    using ex by simp
  show "dom (datasets (snd (export_to_h5 get_shape images end_points num_samples batch_size sact)))
          = fst ` set keys_to_tensors"
  proof -
    have "dom (datasets (write_batches batch_size [0..<?n] keys_to_tensors file0))
            = dom (datasets file0)"
      by (auto simp: w dom_def split: option.splits)
    then show ?thesis using ex dm by simp
  qed
  show "\<forall>key t. map_of keys_to_tensors key = Some t \<longrightarrow>
            (\<exists>ds. datasets (snd (export_to_h5 get_shape images end_points num_samples batch_size sact))
                     key = Some ds
                 \<and> ds_writes ds = batch_slices batch_size [0..<?n] t
                 \<and> length (ds_writes ds) = ?n
                 \<and> (\<forall>w \<in> set (ds_writes ds). fst (snd w) - fst w = batch_size))"
  proof (intro allI impI)
    fix key t assume kt: "map_of keys_to_tensors key = Some t"
    then have "key \<in> fst ` set keys_to_tensors"
      by (metis map_of_SomeD fst_conv image_eqI)
    then obtain ds0 where ds0: "datasets file0 key = Some ds0"
      using dm by auto
    have w0: "ds_writes ds0 = []"
      using nr ds0 by (simp add: no_records_def)
    let ?ds = "ds0\<lparr>ds_writes := ds_writes ds0 @ batch_slices batch_size [0..<?n] t\<rparr>"
    have "datasets (snd (export_to_h5 get_shape images end_points num_samples batch_size sact))
                     key = Some ?ds"
      using ex kt ds0 by (simp add: w)
    moreover have "ds_writes ?ds = batch_slices batch_size [0..<?n] t"
      using w0 by simp
    moreover have "length (ds_writes ?ds) = ?n"
      using w0 by (simp add: batch_slices_def)
    moreover have "\<forall>w \<in> set (ds_writes ?ds). fst (snd w) - fst w = batch_size"
      using w0 by (auto simp: batch_slices_def algebra_simps)
    ultimately show "\<exists>ds. datasets (snd (export_to_h5 get_shape images end_points num_samples batch_size sact))
                     key = Some ds
                 \<and> ds_writes ds = batch_slices batch_size [0..<?n] t
                 \<and> length (ds_writes ds) = ?n
                 \<and> (\<forall>w \<in> set (ds_writes ds). fst (snd w) - fst w = batch_size)"
      by blast
  qed
qed

lemma example_export_tensors:
  "export_tensors example_get_shape (Placeholder ''x'' [2, 4, 4, 3]) example_export_end_points
      False [''block1''] = Inr example_keys_to_tensors"
  by (simp add: export_tensors_def example_export_end_points_def ep_tensor_def
        example_keys_to_tensors_def)

lemma example_export_datasets:
  "\<exists>file0. export_datasets example_get_shape (Placeholder ''x'' [2, 4, 4, 3])
      example_export_end_points 6 False = (Inr example_keys_to_tensors, file0)"
proof -
  have s: "ep_scopes example_export_end_points ''block_scopes'' = Inr [''block1'']"
    by (simp add: ep_scopes_def example_export_end_points_def)
  have "\<exists>file0. create_datasets example_get_shape 6 example_keys_to_tensors
          \<lparr>attrs = [''block_scopes'' \<mapsto> [''block1'']], datasets = Map.empty\<rparr> = (None, file0)"
    by (simp add: example_keys_to_tensors_def example_get_shape_def)
  then show ?thesis
    by (auto simp: export_datasets_def s example_export_tensors)
qed

theorem export_to_h5_batches_witness:
  "\<not> (2::int) dvd 5
   \<and> fst (export_to_h5 example_get_shape (Placeholder ''x'' [2, 4, 4, 3])
             example_export_end_points 5 2 False) \<noteq> None
   \<and> no_records (snd (export_to_h5 example_get_shape (Placeholder ''x'' [2, 4, 4, 3])
             example_export_end_points 5 2 False))
   \<and> (2::int) dvd 6 \<and> (0::int) < 2
   \<and> fst (export_to_h5 example_get_shape (Placeholder ''x'' [2, 4, 4, 3])
             example_export_end_points 6 2 False) = None
   \<and> map_option ds_writes
        (datasets (snd (export_to_h5 example_get_shape (Placeholder ''x'' [2, 4, 4, 3])
             example_export_end_points 6 2 False)) ''block1/ponder_cost'') =
       Some [(0, 2, Run 0 (Placeholder ''ponder1'' [2])),
             (2, 4, Run 1 (Placeholder ''ponder1'' [2])),
             (4, 6, Run 2 (Placeholder ''ponder1'' [2]))]"
proof -
  have nd: "\<not> (2::int) dvd 5" by simp
  obtain file0 where e: "export_datasets example_get_shape (Placeholder ''x'' [2, 4, 4, 3])
      example_export_end_points 6 False = (Inr example_keys_to_tensors, file0)"
    using example_export_datasets by blast
  have m: "map_of example_keys_to_tensors ''block1/ponder_cost'' = Some (Placeholder ''ponder1'' [2])"
    by (simp add: example_keys_to_tensors_def)
  note t1 = export_to_h5_batches [where batch_size = 2 and num_samples = 5
      and get_shape = example_get_shape and images = "Placeholder ''x'' [2, 4, 4, 3]"
      and end_points = example_export_end_points and sact = False, THEN conjunct1, rule_format, OF nd]
  have h: "(2::int) dvd 6 \<and> (0::int) < 2
       \<and> export_datasets example_get_shape (Placeholder ''x'' [2, 4, 4, 3])
            example_export_end_points 6 False = (Inr example_keys_to_tensors, file0)"
    using e by simp
  note t2 = export_to_h5_batches [where batch_size = 2 and num_samples = 6
      and get_shape = example_get_shape and images = "Placeholder ''x'' [2, 4, 4, 3]"
      and end_points = example_export_end_points and sact = False
      and keys_to_tensors = example_keys_to_tensors and ?file0.0 = file0,
      THEN conjunct2, rule_format, OF h]
  obtain ds where
    d: "datasets (snd (export_to_h5 example_get_shape (Placeholder ''x'' [2, 4, 4, 3])
             example_export_end_points 6 2 False)) ''block1/ponder_cost'' = Some ds"
    and w: "ds_writes ds = batch_slices 2 [0..<nat (6 div 2)] (Placeholder ''ponder1'' [2])"
    using t2 m by blast
  have "batch_slices 2 [0..<nat (6 div 2)] (Placeholder ''ponder1'' [2]) =
          [(0, 2, Run 0 (Placeholder ''ponder1'' [2])),
             (2, 4, Run 1 (Placeholder ''ponder1'' [2])),
             (4, 6, Run 2 (Placeholder ''ponder1'' [2]))]"
    by (simp add: batch_slices_def upt_rec)
  then show ?thesis
    using t1 t2 d w by simp
qed

section \<open>Properties of the heat maps\<close>

lemma shapes_of_map: "shapes_of ts = map shape_of ts"
  by (induction ts) simp_all

lemma ivals_of_map: "ivals_of ts = map ivals ts"
  by (induction ts) simp_all

lemma all_some_replicate: "all_some (replicate n (Some x)) = Some (replicate n x)"
  by (induction n) simp_all

lemma shapes_of_same:
  assumes "\<forall>t \<in> set ts. shape_of t = Some sh"
  shows "all_some (shapes_of ts) = Some (replicate (length ts) sh)"
proof -
  have "map shape_of ts = replicate (length ts) (Some sh)"
    using assms by (induction ts) simp_all
  then show ?thesis
    by (simp add: shapes_of_map all_some_replicate)
qed

lemma add_n_shape_same: "0 < n \<Longrightarrow> add_n_shape (replicate n sh) = Some sh"
  by (cases n) (simp_all add: add_n_shape_def)

lemma shape_of_Add_n:
  assumes "ts \<noteq> []" and "\<forall>t \<in> set ts. shape_of t = Some sh"
  shows "shape_of (Add_n ts) = Some sh"
  using assms shapes_of_same [OF assms(2)] add_n_shape_same [of "length ts" sh] by simp

lemma broadcast_scalar: "broadcast sh [] = Some sh"
  by (cases "rev sh") (simp_all add: broadcast_def rev_swap [symmetric])

lemma broadcast_rev_same: "broadcast_rev xs xs = Some xs"
  by (induction xs) simp_all

lemma broadcast_same: "broadcast sh sh = Some sh"
  by (simp add: broadcast_def broadcast_rev_same)

lemma broadcast_per_image: "broadcast [k, h, w, c] [k, 1, 1, 1] = Some [k, h, w, c]"
  by (simp add: broadcast_def)

lemma reduce_shape_per_image:
  "reduce_shape [k, h, w, c] (Some [1, 2, 3]) True = Some [k, 1, 1, 1]"
  by (simp add: reduce_shape_def upt_rec numeral_2_eq_2 numeral_3_eq_3)

lemma shape_of_normalized:
  assumes "shape_of x = Some [k, h, w, c]"
  shows "shape_of (Div (Sub x (Reduce_min x (Some [1, 2, 3]) True))
                  (Reduce_max (Sub x (Reduce_min x (Some [1, 2, 3]) True))
                     (Some [1, 2, 3]) True)) = Some [k, h, w, c]"
proof -
  have s: "shape_of (Sub x (Reduce_min x (Some [1, 2, 3]) True)) = Some [k, h, w, c]"
    using assms by (simp del: One_nat_def add: reduce_shape_per_image broadcast_per_image)
  show ?thesis
    using s by (simp del: One_nat_def shape_of.simps(12)
        add: reduce_shape_per_image broadcast_per_image)
qed

lemma shape_of_Concat2:
  "shape_of a = Some sa \<Longrightarrow> shape_of b = Some sb \<Longrightarrow>
   shape_of (Concat [a, b] ax) = concat_shape [sa, sb] ax"
  by simp

lemma shape_of_Concat3:
  "shape_of a = Some sa \<Longrightarrow> shape_of b = Some sb \<Longrightarrow> shape_of c = Some sc \<Longrightarrow>
   shape_of (Concat [a, b, c] ax) = concat_shape [sa, sb, sc] ax"
  by simp

lemma shape_of_upsampled_map:
  assumes "shape_of t = Some [n', h', w']" and "k \<le> n'"
    and "ivals image_count = Some [int k]" and "ivals (spec_resolution images) = Some [int h, int w]"
    and "0 < h" and "0 < w"
  shows "shape_of (spec_upsampled_map t image_count images) = Some [k, h, w, 1]"
  using assms by (simp add: spec_upsampled_map_def slice_len_def min_def)

lemma shape_of_heatmap:
  assumes "shape_of t = Some [n', h', w']" and "k \<le> n'"
    and "ivals image_count = Some [int k]" and "ivals (spec_resolution images) = Some [int h, int w]"
    and "0 < h" and "0 < w"
  shows "shape_of (spec_heatmap t image_count images) = Some [k, h, w, 3]"
proof -
  have a: "shape_of (spec_upsampled_map t image_count images) = Some [k, h, w, 1]"
    using shape_of_upsampled_map [OF assms] .
  have b: "shape_of (Zeros (Stack [image_count, Index (spec_resolution images) 0,
                                   Index (spec_resolution images) 1, Int_scalar 2]))
            = Some [k, h, w, 2]"
    using assms by simp
  show ?thesis
    unfolding spec_heatmap_def shape_of_Concat2 [OF a b]
    by (simp add: concat_shape_def numeral_3_eq_3)
qed

lemma image_heatmaps_maps:
  assumes "\<forall>s \<in> set scopes. ep_tensor end_points (s @ ''/'' @ metric_name) = Inr (metric_maps s)"
  shows "image_heatmaps end_points metric_name image_count (spec_resolution images) scopes =
           Inr (map (\<lambda>s. spec_heatmap (metric_maps s) image_count images) scopes)"
  using assms
  by (induction scopes) (simp_all add: Let_def spec_heatmap_def spec_upsampled_map_def)

lemma sact_image_heatmap_eval:
  assumes "metric_name = ''ponder_cost'' \<or> metric_name = ''num_units''"
    and "ep_tensor end_points ''inputs'' = Inr inputs"
    and "ep_units end_points ''block_num_units'' = Inr block_num_units"
    and "ep_scopes end_points ''block_scopes'' = Inr scopes"
    and "image_heatmaps end_points metric_name (spec_image_count inputs num_images)
           (spec_resolution (shown_images inputs num_images normalize_images))
           scopes = Inr heatmaps"
  shows "sact_image_heatmap end_points metric_name num_images alpha border normalize_images =
           (if heatmaps = [] then Inl ValueError
            else if spec_max_value metric_name block_num_units = 0 then Inl ZeroDivisionError
            else Inr (Concat
               [shown_images inputs num_images normalize_images,
                spec_border (spec_image_count inputs num_images)
                  (shown_images inputs num_images normalize_images) border,
                Add (Mul (shown_images inputs num_images normalize_images) (Scalar (1 - alpha)))
                    (Mul (Add_n heatmaps)
                         (Scalar (alpha / real (spec_max_value metric_name block_num_units))))] 2))"
proof -
  consider (ponder) "metric_name = ''ponder_cost''" | (units) "metric_name = ''num_units''"
    using assms(1) by blast
  then show ?thesis
  proof cases
    case ponder
    show ?thesis
      using assms(2-5) unfolding ponder
      by (cases num_images; cases normalize_images)
         (auto simp del: One_nat_def simp add: sact_image_heatmap_def shown_images_def Let_def
            spec_image_count_def spec_resolution_def spec_border_def spec_max_value_def)
  next
    case units
    show ?thesis
      using assms(2-5) unfolding units
      by (cases num_images; cases normalize_images)
         (auto simp del: One_nat_def simp add: sact_image_heatmap_def shown_images_def Let_def
            spec_image_count_def spec_resolution_def spec_border_def spec_max_value_def)
  qed
qed

text \<open>
  C7. For end-points of a spatially adaptive network (the inputs are \<open>n\<close>
  three-channel images of height \<open>h\<close> and width \<open>w\<close>, there is at least one
  block and one unit, and every block scope \<open>S\<close> has under \<^verbatim>\<open>S/metric_name\<close> a map
  of rank 3 for at least \<open>k\<close> images), a metric name among \<^verbatim>\<open>ponder_cost\<close> and
  \<^verbatim>\<open>num_units\<close>, and \<open>k\<close> images to show (\<open>num_images = k \<le> n\<close>, or all \<open>n\<close> when
  \<open>num_images\<close> is \<open>None\<close>), \<open>sact_image_heatmap\<close> returns the concatenation along
  the width axis of the shown images (normalized on request), a tensor of zeros
  \<open>border\<close> wide and the overlay: the images weighted by \<open>1 - alpha\<close> plus the sum
  over the block scopes in \<^verbatim>\<open>block_scopes\<close> of the heat maps made from the entries
  \<^verbatim>\<open>S/metric_name\<close> of the end-points, each upsampled by nearest neighbour to the
  \<open>h\<close> by \<open>w\<close> resolution of the images, weighted by \<open>alpha / max_value\<close>. The parts
  have the shapes \<open>(k, h, w, 3)\<close>, \<open>(k, h, border, 3)\<close> and \<open>(k, h, w, 3)\<close>, and
  the result the shape \<open>(k, h, w * 2 + border, 3)\<close>.
\<close>

theorem sact_image_heatmap_shape:
  assumes "metric_name = ''ponder_cost'' \<or> metric_name = ''num_units''"
    and "ep_tensor end_points ''inputs'' = Inr inputs"
    and "shape_of inputs = Some [n, h, w, 3]"
    and "num_images = None \<and> k = n \<or> num_images = Some (int k) \<and> k \<le> n"
    and "0 < h" and "0 < w" and "0 \<le> border"
    and "ep_units end_points ''block_num_units'' = Inr block_num_units"
    and "0 < sum_list block_num_units"
    and "ep_scopes end_points ''block_scopes'' = Inr scopes" and "scopes \<noteq> []"
    and "\<forall>s \<in> set scopes.
           ep_tensor end_points (s @ ''/'' @ metric_name) = Inr (metric_maps s)
           \<and> (\<exists>n' h' w'. shape_of (metric_maps s) = Some [n', h', w'] \<and> k \<le> n')"
    and "images = shown_images inputs num_images normalize_images"
    and "image_count = spec_image_count inputs num_images"
    and "max_value = spec_max_value metric_name block_num_units"
  shows "sact_image_heatmap end_points metric_name num_images alpha border normalize_images =
        Inr (spec_image_heatmap images (map metric_maps scopes) image_count alpha max_value border)
    \<and> shape_of images = Some [k, h, w, 3]
    \<and> ivals image_count = Some [int k]
    \<and> ivals (spec_resolution images) = Some [int h, int w]
    \<and> shape_of (spec_border image_count images border) = Some [k, h, nat border, 3]
    \<and> (\<forall>s \<in> set scopes.
          shape_of (spec_upsampled_map (metric_maps s) image_count images) = Some [k, h, w, 1]
          \<and> shape_of (spec_heatmap (metric_maps s) image_count images) = Some [k, h, w, 3])
    \<and> shape_of (spec_overlay images (map metric_maps scopes) image_count alpha max_value)
        = Some [k, h, w, 3]
    \<and> shape_of (spec_image_heatmap images (map metric_maps scopes) image_count alpha max_value border)
        = Some [k, h, w * 2 + nat border, 3]"
proof -
  let ?heatmaps = "map (\<lambda>s. spec_heatmap (metric_maps s) image_count images) scopes"
  have sliced: "shape_of (case num_images of
                      Some j \<Rightarrow> Take_first inputs (Int_scalar j) 4
                    | None \<Rightarrow> inputs) = Some [k, h, w, 3]"
    using assms(3,4) by (auto simp: slice_len_def)
  have si: "shape_of images = Some [k, h, w, 3]"
    unfolding assms(13)
    using sliced shape_of_normalized [OF sliced]
    by (simp del: One_nat_def shape_of.simps add: shown_images_def Let_def)
  have nt: "ivals image_count = Some [int k]"
    unfolding assms(14) using assms(3,4) by (auto simp: spec_image_count_def)
  have res: "ivals (spec_resolution images) = Some [int h, int w]"
    using si by (simp add: spec_resolution_def)
  have maps: "\<forall>s \<in> set scopes. ep_tensor end_points (s @ ''/'' @ metric_name) = Inr (metric_maps s)"
    using assms(12) by blast
  have l: "image_heatmaps end_points metric_name (spec_image_count inputs num_images)
             (spec_resolution (shown_images inputs num_images normalize_images)) scopes =
           Inr ?heatmaps"
    using image_heatmaps_maps [OF maps, of image_count images] by (simp add: assms(13,14))
  have ne: "?heatmaps \<noteq> []"
    using assms(11) by simp
  have mx: "spec_max_value metric_name block_num_units \<noteq> 0"
    using assms(9) by (simp add: spec_max_value_def)
  have eq: "sact_image_heatmap end_points metric_name num_images alpha border normalize_images =
        Inr (spec_image_heatmap images (map metric_maps scopes) image_count alpha max_value border)"
    using sact_image_heatmap_eval [OF assms(1,2,8,10) l, of alpha border] ne mx
    by (simp add: spec_image_heatmap_def spec_overlay_def assms(13,14,15) comp_def)
  have sz: "shape_of (spec_border image_count images border) = Some [k, h, nat border, 3]"
    using nt res assms(7) by (simp add: spec_border_def)
  have each: "\<forall>s \<in> set scopes.
          shape_of (spec_upsampled_map (metric_maps s) image_count images) = Some [k, h, w, 1]
          \<and> shape_of (spec_heatmap (metric_maps s) image_count images) = Some [k, h, w, 3]"
  proof
    fix s assume "s \<in> set scopes"
    then obtain n' h' w' where sh: "shape_of (metric_maps s) = Some [n', h', w']" and kn: "k \<le> n'"
      using assms(12) by blast
    show "shape_of (spec_upsampled_map (metric_maps s) image_count images) = Some [k, h, w, 1]
          \<and> shape_of (spec_heatmap (metric_maps s) image_count images) = Some [k, h, w, 3]"
      using shape_of_upsampled_map [OF sh kn nt res assms(5,6)]
        shape_of_heatmap [OF sh kn nt res assms(5,6)]
      by (intro conjI)
  qed
  have "\<forall>t \<in> set ?heatmaps. shape_of t = Some [k, h, w, 3]"
    using each by auto
  then have sa: "shape_of (Add_n ?heatmaps) = Some [k, h, w, 3]"
    using shape_of_Add_n [OF ne] by blast
  have so: "shape_of (spec_overlay images (map metric_maps scopes) image_count alpha max_value)
              = Some [k, h, w, 3]"
    using si sa by (simp add: spec_overlay_def comp_def broadcast_scalar broadcast_same)
  have sr: "shape_of (spec_image_heatmap images (map metric_maps scopes) image_count alpha
                        max_value border) = Some [k, h, w * 2 + nat border, 3]"
    unfolding spec_image_heatmap_def shape_of_Concat3 [OF si sz so]
    by (simp add: concat_shape_def)
  show ?thesis
    by (intro conjI eq si nt res sz each so sr)
qed

theorem sact_image_heatmap_shape_witness:
  "ep_tensor example_sact_end_points ''inputs'' = Inr (Placeholder ''images'' [3, 8, 8, 3])
   \<and> shape_of (Placeholder ''images'' [3, 8, 8, 3]) = Some [3, 8, 8, 3]
   \<and> ep_units example_sact_end_points ''block_num_units'' = Inr [2, 1]
   \<and> ep_scopes example_sact_end_points ''block_scopes'' = Inr [''block1'', ''block2'']
   \<and> ep_tensor example_sact_end_points ''block1/ponder_cost'' = Inr (Placeholder ''ponder1'' [3, 4, 4])
   \<and> ep_tensor example_sact_end_points ''block2/ponder_cost'' = Inr (Placeholder ''ponder2'' [3, 2, 2])
   \<and> sact_image_heatmap example_sact_end_points ''ponder_cost'' (Some 2) (3 / 4) 5 True =
       Inr (spec_image_heatmap (shown_images (Placeholder ''images'' [3, 8, 8, 3]) (Some 2) True)
              [Placeholder ''ponder1'' [3, 4, 4], Placeholder ''ponder2'' [3, 2, 2]]
              (Int_scalar 2) (3 / 4) 5 5)
   \<and> shape_of (spec_image_heatmap (shown_images (Placeholder ''images'' [3, 8, 8, 3]) (Some 2) True)
              [Placeholder ''ponder1'' [3, 4, 4], Placeholder ''ponder2'' [3, 2, 2]]
              (Int_scalar 2) (3 / 4) 5 5) = Some [2, 8, 21, 3]"
proof -
  let ?maps = "\<lambda>s. if s = ''block1'' then Placeholder ''ponder1'' [3, 4, 4]
                    else Placeholder ''ponder2'' [3, 2, 2]"
  have i: "ep_tensor example_sact_end_points ''inputs'' = Inr (Placeholder ''images'' [3, 8, 8, 3])"
    and p1: "ep_tensor example_sact_end_points ''block1/ponder_cost'' =
               Inr (Placeholder ''ponder1'' [3, 4, 4])"
    and p2: "ep_tensor example_sact_end_points ''block2/ponder_cost'' =
               Inr (Placeholder ''ponder2'' [3, 2, 2])"
    by (simp_all add: ep_tensor_def example_sact_end_points_def)
  have u: "ep_units example_sact_end_points ''block_num_units'' = Inr [2, 1]"
    by (simp add: ep_units_def example_sact_end_points_def)
  have s: "ep_scopes example_sact_end_points ''block_scopes'' = Inr [''block1'', ''block2'']"
    by (simp add: ep_scopes_def example_sact_end_points_def)
  have sh: "shape_of (Placeholder ''images'' [3, 8, 8, 3]) = Some [3, 8, 8, 3]"
    by simp
  have m: "\<forall>s \<in> set [''block1'', ''block2''].
           ep_tensor example_sact_end_points (s @ ''/'' @ ''ponder_cost'') = Inr (?maps s)
           \<and> (\<exists>n' h' w'. shape_of (?maps s) = Some [n', h', w'] \<and> 2 \<le> n')"
    using p1 p2 by simp
  have k: "Some 2 = None \<and> 2 = 3 \<or> Some (2::int) = Some (int 2) \<and> (2::nat) \<le> 3"
    by simp
  have c: "Int_scalar 2 = spec_image_count (Placeholder ''images'' [3, 8, 8, 3]) (Some 2)"
    by (simp add: spec_image_count_def)
  have x: "(5::nat) = spec_max_value ''ponder_cost'' [2, 1]"
    by (simp add: spec_max_value_def)
  have "sact_image_heatmap example_sact_end_points ''ponder_cost'' (Some 2) (3 / 4) 5 True =
       Inr (spec_image_heatmap (shown_images (Placeholder ''images'' [3, 8, 8, 3]) (Some 2) True)
              (map ?maps [''block1'', ''block2'']) (Int_scalar 2) (3 / 4) 5 5)
     \<and> shape_of (spec_image_heatmap (shown_images (Placeholder ''images'' [3, 8, 8, 3]) (Some 2) True)
              (map ?maps [''block1'', ''block2'']) (Int_scalar 2) (3 / 4) 5 5)
         = Some [2, 8, 8 * 2 + nat 5, 3]"
    using sact_image_heatmap_shape [where metric_name = "''ponder_cost''"
        and end_points = example_sact_end_points and inputs = "Placeholder ''images'' [3, 8, 8, 3]"
        and n = 3 and h = 8 and w = 8 and k = 2 and num_images = "Some 2" and border = 5
        and block_num_units = "[2, 1]" and scopes = "[''block1'', ''block2'']"
        and alpha = "3 / 4" and normalize_images = True and metric_maps = ?maps
        and images = "shown_images (Placeholder ''images'' [3, 8, 8, 3]) (Some 2) True"
        and image_count = "Int_scalar 2" and max_value = 5,
        OF _ i sh k _ _ _ u _ s _ m refl c x]
    by simp
  then show ?thesis
    using i sh u s p1 p2 by simp
qed

end
